theory Spec2Isabelle
  imports Complex_Main
begin

section \<open>JavaScript values of the webhook payload\<close>

text \<open>
  The webhook controller and the tracker service receive the delivery as \<^verbatim>\<open>body: any\<close>,
  the result of parsing a JSON request body. The model keeps the dynamic typing: a value is
  one of the JSON shapes, plus \<open>JUndefined\<close> for what a missing property reads as.
  A finite number is its exact rational value (every finite double is one; \<open>-0\<close> and
  \<open>0\<close> are not told apart, the code never does). An object is the list of its own
  properties, looked up by first match.
\<close>

datatype jsnum = Fin rat | NaN | PosInf | NegInf

datatype jsval =
    JUndefined
  | JNull
  | JBool bool
  | JNum jsnum
  | JStr string
  | JArr "jsval list"
  | JObj "(string \<times> jsval) list"

datatype error = TypeError | SyntaxError | LibraryError | DatabaseError

text \<open>Truthiness (\<^verbatim>\<open>!v\<close>, \<^verbatim>\<open>if (v)\<close>) and the operator \<^verbatim>\<open>a || b\<close>.\<close>

fun truthy :: "jsval \<Rightarrow> bool" where
  "truthy JUndefined = False"
| "truthy JNull = False"
| "truthy (JBool b) = b"
| "truthy (JNum n) = (n \<noteq> Fin 0 \<and> n \<noteq> NaN)"
| "truthy (JStr s) = (s \<noteq> [])"
| "truthy (JArr xs) = True"
| "truthy (JObj kvs) = True"

definition jsor :: "jsval \<Rightarrow> jsval \<Rightarrow> jsval" where
  "jsor a b = (if truthy a then a else b)"

fun nullish :: "jsval \<Rightarrow> bool" where
  "nullish JUndefined = True"
| "nullish JNull = True"
| "nullish v = False"

text \<open>
  Property keys that are canonical array indices (\<^verbatim>\<open>"0"\<close>, \<^verbatim>\<open>"17"\<close>; no sign, no
  leading zero) select an element of an array or a character of a string.
\<close>

definition decimalDigits :: "(char \<times> nat) list" where
  "decimalDigits =
     [(CHR ''0'', 0), (CHR ''1'', 1), (CHR ''2'', 2), (CHR ''3'', 3), (CHR ''4'', 4),
      (CHR ''5'', 5), (CHR ''6'', 6), (CHR ''7'', 7), (CHR ''8'', 8), (CHR ''9'', 9)]"

definition hexLetters :: "(char \<times> nat) list" where
  "hexLetters =
     [(CHR ''a'', 10), (CHR ''b'', 11), (CHR ''c'', 12), (CHR ''d'', 13), (CHR ''e'', 14),
      (CHR ''f'', 15), (CHR ''A'', 10), (CHR ''B'', 11), (CHR ''C'', 12), (CHR ''D'', 13),
      (CHR ''E'', 14), (CHR ''F'', 15)]"

definition digitVal :: "nat \<Rightarrow> char \<Rightarrow> nat option" where
  "digitVal radix c =
     (case map_of (decimalDigits @ hexLetters) c of
        None \<Rightarrow> None
      | Some d \<Rightarrow> if d < radix then Some d else None)"

fun parseDigits :: "nat \<Rightarrow> nat \<Rightarrow> string \<Rightarrow> nat option" where
  "parseDigits radix acc [] = Some acc"
| "parseDigits radix acc (c # cs) =
     (case digitVal radix c of
        None \<Rightarrow> None
      | Some d \<Rightarrow> parseDigits radix (acc * radix + d) cs)"

definition indexKey :: "string \<Rightarrow> nat option" where
  "indexKey k =
     (if k = [] \<or> (hd k = CHR ''0'' \<and> tl k \<noteq> []) then None else parseDigits 10 0 k)"

definition nth_or_undefined :: "jsval list \<Rightarrow> nat \<Rightarrow> jsval" where
  "nth_or_undefined xs i = (if i < length xs then xs ! i else JUndefined)"

text \<open>
  \<open>optGet v k\<close> is \<^verbatim>\<open>v?.k\<close>: \<^verbatim>\<open>undefined\<close> on \<^verbatim>\<open>null\<close> and \<^verbatim>\<open>undefined\<close>, the own
  property of an object, \<^verbatim>\<open>length\<close> and the indices of an array or a string, and
  \<^verbatim>\<open>undefined\<close> for every other key the code reads (none of them is a method of a
  prototype). \<open>getProp v k\<close> is \<^verbatim>\<open>v.k\<close>, which throws a TypeError on \<^verbatim>\<open>null\<close> and
  \<^verbatim>\<open>undefined\<close>.
\<close>

fun optGet :: "jsval \<Rightarrow> string \<Rightarrow> jsval" where
  "optGet (JObj kvs) k = (case map_of kvs k of None \<Rightarrow> JUndefined | Some v \<Rightarrow> v)"
| "optGet (JArr xs) k =
     (if k = ''length'' then JNum (Fin (of_nat (length xs)))
      else case indexKey k of None \<Rightarrow> JUndefined | Some i \<Rightarrow> nth_or_undefined xs i)"
| "optGet (JStr s) k =
     (if k = ''length'' then JNum (Fin (of_nat (length s)))
      else case indexKey k of
             None \<Rightarrow> JUndefined
           | Some i \<Rightarrow> if i < length s then JStr [s ! i] else JUndefined)"
| "optGet v k = JUndefined"

definition getProp :: "jsval \<Rightarrow> string \<Rightarrow> error + jsval" where
  "getProp v k = (if nullish v then Inl TypeError else Inr (optGet v k))"

text \<open>
  \<^verbatim>\<open>v.k = x\<close> in strict code (the body of a class is strict): a TypeError on
  \<^verbatim>\<open>null\<close>, \<^verbatim>\<open>undefined\<close> and on a primitive. On an array the property is stored
  beside the elements; the model has no place for it and leaves the array as it is, which
  no later read can observe (an array has no \<^verbatim>\<open>to\<close> or \<^verbatim>\<open>toAddress\<close>, so
  \<open>processERC20Transfer\<close> returns before reading anything else).
\<close>

fun setProp :: "jsval \<Rightarrow> string \<Rightarrow> jsval \<Rightarrow> error + jsval" where
  "setProp (JObj kvs) k x = Inr (JObj ((k, x) # kvs))"
| "setProp (JArr xs) k x = Inr (JArr xs)"
| "setProp v k x = Inl TypeError"

text \<open>\<^verbatim>\<open>for (const x of v)\<close>: the elements of an array, the characters of a string, a
  TypeError on anything else.\<close>

fun iterate :: "jsval \<Rightarrow> error + jsval list" where
  "iterate (JArr xs) = Inr xs"
| "iterate (JStr s) = Inr (map (\<lambda>c. JStr [c]) s)"
| "iterate v = Inl TypeError"

subsection \<open>Strings\<close>

text \<open>
  Strings are modelled over the ASCII range: \<^verbatim>\<open>toLowerCase\<close> and \<^verbatim>\<open>toUpperCase\<close>
  map the 26 letters and leave every other character alone.
\<close>

definition upperLetters :: string where
  "upperLetters = ''ABCDEFGHIJKLMNOPQRSTUVWXYZ''"

definition lowerLetters :: string where
  "lowerLetters = ''abcdefghijklmnopqrstuvwxyz''"

definition toLowerCase :: "string \<Rightarrow> string" where
  "toLowerCase s =
     map (\<lambda>c. case map_of (zip upperLetters lowerLetters) c of None \<Rightarrow> c | Some d \<Rightarrow> d) s"

definition toUpperCase :: "string \<Rightarrow> string" where
  "toUpperCase s =
     map (\<lambda>c. case map_of (zip lowerLetters upperLetters) c of None \<Rightarrow> c | Some d \<Rightarrow> d) s"

text \<open>\<^verbatim>\<open>s.slice(-n)\<close>: the last \<open>n\<close> characters, the whole string when it is shorter.\<close>

definition sliceLast :: "nat \<Rightarrow> string \<Rightarrow> string" where
  "sliceLast n s = drop (length s - n) s"

definition isWhiteSpace :: "char \<Rightarrow> bool" where
  "isWhiteSpace c = (c \<in> set [CHR '' '', CHR 0x09, CHR 0x0A, CHR 0x0B, CHR 0x0C, CHR 0x0D])"

definition trim :: "string \<Rightarrow> string" where
  "trim s = rev (dropWhile isWhiteSpace (rev (dropWhile isWhiteSpace s)))"

text \<open>
  \<^verbatim>\<open>parseInt(s)\<close> with no radix: leading white space, an optional sign, an optional
  \<^verbatim>\<open>0x\<close> prefix selecting radix 16, then the longest run of digits; \<^verbatim>\<open>NaN\<close> when
  that run is empty. The result is the exact integer (the rounding of integers beyond
  \<open>2^53\<close> to a double is not modelled).
\<close>

definition parseIntDigits :: "nat \<Rightarrow> string \<Rightarrow> nat option" where
  "parseIntDigits radix s =
     (let ds = takeWhile (\<lambda>c. digitVal radix c \<noteq> None) s
      in if ds = [] then None else parseDigits radix 0 ds)"

definition parseIntUnsigned :: "string \<Rightarrow> nat option" where
  "parseIntUnsigned s =
     (case s of
        c # d # rest \<Rightarrow>
          if c = CHR ''0'' \<and> (d = CHR ''x'' \<or> d = CHR ''X'') then parseIntDigits 16 rest
          else parseIntDigits 10 s
      | _ \<Rightarrow> parseIntDigits 10 s)"

definition parseInt :: "string \<Rightarrow> jsnum" where
  "parseInt s =
     (let t = dropWhile isWhiteSpace s
      in case t of
           [] \<Rightarrow> NaN
         | c # rest \<Rightarrow>
             if c = CHR ''-'' then
               (case parseIntUnsigned rest of None \<Rightarrow> NaN | Some n \<Rightarrow> Fin (- of_nat n))
             else if c = CHR ''+'' then
               (case parseIntUnsigned rest of None \<Rightarrow> NaN | Some n \<Rightarrow> Fin (of_nat n))
             else
               (case parseIntUnsigned t of None \<Rightarrow> NaN | Some n \<Rightarrow> Fin (of_nat n)))"

text \<open>
  \<^verbatim>\<open>BigInt(s)\<close> on a string: white space trimmed on both sides; the empty string is
  \<open>0\<close>; \<^verbatim>\<open>0x\<close>, \<^verbatim>\<open>0o\<close>, \<^verbatim>\<open>0b\<close> prefixes (no sign) select the radix; otherwise an
  optionally signed run of decimal digits; anything else is a SyntaxError.
\<close>

definition allDigits :: "nat \<Rightarrow> string \<Rightarrow> nat option" where
  "allDigits radix s = (if s = [] then None else parseDigits radix 0 s)"

definition stringToBigInt :: "string \<Rightarrow> error + int" where
  "stringToBigInt s =
     (let t = trim s;
          lift = (\<lambda>sign r. case r of None \<Rightarrow> Inl SyntaxError | Some n \<Rightarrow> Inr (sign * int n))
      in case t of
           [] \<Rightarrow> Inr 0
         | c # rest \<Rightarrow>
             if c = CHR ''-'' then lift (- 1) (allDigits 10 rest)
             else if c = CHR ''+'' then lift 1 (allDigits 10 rest)
             else if c = CHR ''0'' \<and> rest \<noteq> [] \<and> hd rest \<in> set ''xX'' then
               lift 1 (allDigits 16 (tl rest))
             else if c = CHR ''0'' \<and> rest \<noteq> [] \<and> hd rest \<in> set ''oO'' then
               lift 1 (allDigits 8 (tl rest))
             else if c = CHR ''0'' \<and> rest \<noteq> [] \<and> hd rest \<in> set ''bB'' then
               lift 1 (allDigits 2 (tl rest))
             else lift 1 (allDigits 10 t))"


subsection \<open>Numbers\<close>

text \<open>\<^verbatim>\<open>a >= b\<close> and \<^verbatim>\<open>a > b\<close> on numbers: false as soon as one side is \<^verbatim>\<open>NaN\<close>.\<close>

fun jsgeq :: "jsnum \<Rightarrow> jsnum \<Rightarrow> bool" where
  "jsgeq NaN b = False"
| "jsgeq a NaN = False"
| "jsgeq PosInf b = True"
| "jsgeq a NegInf = True"
| "jsgeq (Fin a) (Fin b) = (b \<le> a)"
| "jsgeq a b = False"

fun jsgt :: "jsnum \<Rightarrow> jsnum \<Rightarrow> bool" where
  "jsgt NaN b = False"
| "jsgt a NaN = False"
| "jsgt PosInf PosInf = False"
| "jsgt PosInf b = True"
| "jsgt NegInf b = False"
| "jsgt (Fin a) (Fin b) = (b < a)"
| "jsgt (Fin a) NegInf = True"
| "jsgt (Fin a) PosInf = False"

section \<open>Entities, effects and the environment\<close>

text \<open>
  The two entities of \<^verbatim>\<open>entities/wallet.entity\<close> and \<^verbatim>\<open>entities/transaction.entity\<close>.
  The generated primary key is \<open>w_id\<close> / \<open>t_id\<close> (\<open>None\<close> before the first save); the
  time stamps are left out. \<open>txHash\<close>, \<open>tokenSymbol\<close> and \<open>blockNumber\<close> hold whatever
  value the payload carried, as the code stores it.
\<close>

record wallet =
  w_id :: nat
  address :: string
  chatId :: int
  thresholdUsd :: jsnum
  isActive :: bool
  streamId :: "string option"

record transaction =
  t_id :: "nat option"
  txHash :: jsval
  walletId :: nat
  tokenAddress :: string
  tokenSymbol :: jsval
  amount :: string
  amountUsd :: jsnum
  blockNumber :: jsval
  shortOpened :: bool

text \<open>
  The two notification texts of \<open>handleTokenTransfer\<close>, by the values interpolated into
  them: the transfer alert (symbol, formatted amount, \<^verbatim>\<open>amountUsd.toFixed(2)\<close>, hash,
  block) and the short-position message (symbol, \<^verbatim>\<open>amountUsd.toFixed(2)\<close>).
\<close>

datatype message =
    TransferAlert jsval string string jsval jsval
  | ShortAlert jsval string

text \<open>
  Every call that leaves the process is recorded, in order: the price request, the rows
  written by \<^verbatim>\<open>transactionRepository.save\<close>, the messages handed to Telegram, the
  market lookup and the sell order of the Gate.io service.
\<close>

datatype event =
    PriceLookup string
  | Inserted transaction
  | Updated transaction
  | Notified int message
  | MarketLookup jsval
  | SellOrder jsval jsnum

record state =
  wallets :: "wallet list"
  transactions :: "transaction list"
  trace :: "event list"

text \<open>
  What the code does not decide itself is a parameter. The answers of the outside world
  may depend on everything that happened before (the trace): \<open>priceResponse\<close> is the
  \<^verbatim>\<open>response.data\<close> of the CoinGecko request (\<open>None\<close>: the request throws),
  \<open>pairsResponse\<close> that of the currency-pairs request, \<open>orderOk\<close> whether the signed
  order request succeeds, \<open>saveOk\<close> whether the database accepts a row. The remaining
  fields are library and floating-point functions: \<^verbatim>\<open>ethers.formatUnits\<close> (\<open>None\<close>: it
  throws), \<^verbatim>\<open>parseFloat\<close>, the product of two doubles, the division by 100,
  \<^verbatim>\<open>Number.prototype.toString\<close>, the conversion of a string to a number and
  \<^verbatim>\<open>toFixed(2)\<close>.
\<close>

record env =
  priceResponse :: "event list \<Rightarrow> string \<Rightarrow> jsval option"
  pairsResponse :: "event list \<Rightarrow> jsval option"
  orderOk :: "event list \<Rightarrow> jsval \<Rightarrow> jsnum \<Rightarrow> bool"
  saveOk :: "event list \<Rightarrow> transaction \<Rightarrow> bool"
  formatUnits :: "int \<Rightarrow> jsval \<Rightarrow> string option"
  parseFloat :: "string \<Rightarrow> jsnum"
  fmul :: "jsnum \<Rightarrow> jsnum \<Rightarrow> jsnum"
  fdiv100 :: "jsnum \<Rightarrow> jsnum"
  numberToString :: "jsnum \<Rightarrow> string"
  stringToNumber :: "string \<Rightarrow> jsnum"
  toFixed2 :: "jsnum \<Rightarrow> string"

text \<open>\<^verbatim>\<open>String(v)\<close> and \<^verbatim>\<open>v.toString()\<close> on a payload value.\<close>

fun joinComma :: "string list \<Rightarrow> string" where
  "joinComma [] = []"
| "joinComma [s] = s"
| "joinComma (s # t # ts) = s @ '','' @ joinComma (t # ts)"

fun toStringJS :: "(jsnum \<Rightarrow> string) \<Rightarrow> jsval \<Rightarrow> string" where
  "toStringJS ns JUndefined = ''undefined''"
| "toStringJS ns JNull = ''null''"
| "toStringJS ns (JBool b) = (if b then ''true'' else ''false'')"
| "toStringJS ns (JNum n) = ns n"
| "toStringJS ns (JStr s) = s"
| "toStringJS ns (JArr xs) =
     joinComma (map (\<lambda>x. if nullish x then [] else toStringJS ns x) xs)"
| "toStringJS ns (JObj kvs) = ''[object Object]''"

text \<open>
  Converting a payload value to a string (a template literal, \<^verbatim>\<open>String(v)\<close>,
  \<^verbatim>\<open>v.toString()\<close>) or to a number (\<^verbatim>\<open>*\<close>, \<^verbatim>\<open>>\<close>) throws a TypeError in one
  case: an object that carries an own property named \<^verbatim>\<open>toString\<close>, which is never
  callable in parsed JSON, alone or as an element of an array. \<open>printable\<close> is the
  absence of that case; \<open>toStringJS\<close> and \<open>toNumber\<close> are applied to printable values
  only.
\<close>

fun printable :: "jsval \<Rightarrow> bool" where
  "printable (JObj kvs) = (map_of kvs ''toString'' = None)"
| "printable (JArr xs) = (\<forall>x \<in> set xs. nullish x \<or> printable x)"
| "printable v = True"

text \<open>The conversion to a number that \<^verbatim>\<open>*\<close> and \<^verbatim>\<open>>\<close> apply to an operand.\<close>

fun toNumber :: "env \<Rightarrow> jsval \<Rightarrow> jsnum" where
  "toNumber e JUndefined = NaN"
| "toNumber e JNull = Fin 0"
| "toNumber e (JBool b) = (if b then Fin 1 else Fin 0)"
| "toNumber e (JNum n) = n"
| "toNumber e (JStr s) = stringToNumber e s"
| "toNumber e v = stringToNumber e (toStringJS (numberToString e) v)"

definition emit :: "event \<Rightarrow> state \<Rightarrow> state" where
  "emit ev st = st\<lparr>trace := trace st @ [ev]\<rparr>"

subsection \<open>Repositories\<close>

text \<open>\<^verbatim>\<open>walletRepository.findOne({ where: { address } })\<close> and
  \<^verbatim>\<open>transactionRepository.findOne({ where: { txHash } })\<close>: the first row that matches.
  The hash is compared as the value the payload carried, which for the string hashes of a
  delivery is the comparison of the database; reads are taken to succeed.\<close>

definition findWallet :: "state \<Rightarrow> string \<Rightarrow> wallet option" where
  "findWallet st a = find (\<lambda>w. address w = a) (wallets st)"

definition findTransaction :: "state \<Rightarrow> jsval \<Rightarrow> transaction option" where
  "findTransaction st h = find (\<lambda>t. txHash t = h) (transactions st)"

definition newId :: "transaction list \<Rightarrow> nat" where
  "newId ts = Suc (fold (\<lambda>t m. case t_id t of None \<Rightarrow> m | Some i \<Rightarrow> max i m) ts 0)"

text \<open>
  \<^verbatim>\<open>transactionRepository.save(t)\<close>: a row without a key is inserted under a fresh one; a
  row with a key replaces the stored row of that key, and is inserted when there is none.
  \<open>None\<close> is the database refusing the write (the promise rejects); otherwise the saved
  row and the new state.
\<close>

definition saveTransaction :: "env \<Rightarrow> state \<Rightarrow> transaction \<Rightarrow> (transaction \<times> state) option" where
  "saveTransaction e st t =
     (if \<not> saveOk e (trace st) t then None
      else case t_id t of
        None \<Rightarrow>
          (let t' = t\<lparr>t_id := Some (newId (transactions st))\<rparr>
           in Some (t', emit (Inserted t') (st\<lparr>transactions := transactions st @ [t']\<rparr>)))
      | Some i \<Rightarrow>
          if \<exists>r \<in> set (transactions st). t_id r = Some i then
            Some (t, emit (Updated t)
                      (st\<lparr>transactions :=
                            map (\<lambda>r. if t_id r = Some i then t else r) (transactions st)\<rparr>))
          else Some (t, emit (Inserted t) (st\<lparr>transactions := transactions st @ [t]\<rparr>)))"


section \<open>The collaborators\<close>

subsection \<open>PriceService.getTokenPriceInUsd\<close>

text \<open>
  The whole body is inside \<^verbatim>\<open>try\<close>: a failing request, and a TypeError from indexing a
  \<^verbatim>\<open>null\<close> response, both end in \<^verbatim>\<open>return 0\<close>. A falsy price is replaced by \<open>0\<close> as
  well; a truthy one is returned as it came.
\<close>

definition getTokenPriceInUsd :: "env \<Rightarrow> state \<Rightarrow> string \<Rightarrow> jsval \<times> state" where
  "getTokenPriceInUsd e st addr =
     (let st1 = emit (PriceLookup (toLowerCase addr)) st
      in case priceResponse e (trace st1) (toLowerCase addr) of
           None \<Rightarrow> (JNum (Fin 0), st1)
         | Some data \<Rightarrow>
             (case getProp data (toLowerCase addr) of
                Inl err \<Rightarrow> (JNum (Fin 0), st1)
              | Inr entry \<Rightarrow>
                  (let price = optGet entry ''usd''
                   in if \<not> truthy price then (JNum (Fin 0), st1) else (price, st1))))"

subsection \<open>TelegramService.sendNotification\<close>

text \<open>The call to \<^verbatim>\<open>bot.telegram.sendMessage\<close> is inside \<^verbatim>\<open>try\<close>; whether it succeeds
  or not, the method returns normally.\<close>

definition sendNotification :: "state \<Rightarrow> int \<Rightarrow> message \<Rightarrow> state" where
  "sendNotification st chat msg = emit (Notified chat msg) st"

subsection \<open>GateioService\<close>

text \<open>
  The callback of \<^verbatim>\<open>pairs.find\<close>: \<^verbatim>\<open>p.base.toUpperCase()\<close> and
  \<^verbatim>\<open>p.quote.toUpperCase()\<close> throw a TypeError unless both are strings; the first pair
  whose base is the symbol and whose quote is USDT or USD is the result.
\<close>

fun findPair :: "string \<Rightarrow> jsval list \<Rightarrow> error + jsval option" where
  "findPair symbolUpper [] = Inr None"
| "findPair symbolUpper (p # ps) =
     (case getProp p ''base'' of
        Inl err \<Rightarrow> Inl err
      | Inr (JStr b) \<Rightarrow>
          (case optGet p ''quote'' of
             JStr q \<Rightarrow>
               (let base = toUpperCase b; quote = toUpperCase q
                in if (base = symbolUpper \<and> quote = ''USDT'') \<or>
                      (base = symbolUpper \<and> quote = ''USD'')
                   then Inr (Some p)
                   else findPair symbolUpper ps)
           | _ \<Rightarrow> Inl TypeError)
      | Inr _ \<Rightarrow> Inl TypeError)"

text \<open>
  \<open>findTradingPair\<close>: \<^verbatim>\<open>getTradingPairs\<close> answers \<^verbatim>\<open>[]\<close> when its request fails; every
  exception after that (a symbol that is not a string, a response that is not an array, the
  callback above) is caught and turned into \<^verbatim>\<open>null\<close>.
\<close>

definition findTradingPair :: "env \<Rightarrow> state \<Rightarrow> jsval \<Rightarrow> jsval \<times> state" where
  "findTradingPair e st symbol =
     (let st1 = emit (MarketLookup symbol) st;
          pairs = (case pairsResponse e (trace st1) of None \<Rightarrow> JArr [] | Some d \<Rightarrow> d)
      in case symbol of
           JStr s \<Rightarrow>
             (case pairs of
                JArr ps \<Rightarrow>
                  (case findPair (toUpperCase s) ps of
                     Inr (Some pair) \<Rightarrow> (optGet pair ''id'', st1)
                   | Inr None \<Rightarrow> (JNull, st1)
                   | Inl err \<Rightarrow> (JNull, st1))
              | _ \<Rightarrow> (JNull, st1))
         | _ \<Rightarrow> (JNull, st1))"

text \<open>\<open>GateioService.openShortPosition\<close>: the market sell order; \<open>False\<close> is the request
  failing, which the method logs and throws again.\<close>

definition gateioOpenShortPosition :: "env \<Rightarrow> state \<Rightarrow> jsval \<Rightarrow> jsnum \<Rightarrow> bool \<times> state" where
  "gateioOpenShortPosition e st tradingPair amt =
     (let st1 = emit (SellOrder tradingPair amt) st
      in (orderOk e (trace st1) tradingPair amt, st1))"

section \<open>BscTrackerService\<close>

subsection \<open>openShortPosition\<close>

text \<open>
  The whole body is inside \<^verbatim>\<open>try\<close>. The first log line interpolates the token symbol
  of the row; an exception there, a failing order and a failing save all end the method
  normally.
\<close>

definition openShortPosition :: "env \<Rightarrow> state \<Rightarrow> transaction \<Rightarrow> wallet \<Rightarrow> state" where
  "openShortPosition e st t w =
     (if shortOpened t then st
      else if \<not> printable (tokenSymbol t) then st
      else
        (let (tradingPair, st1) = findTradingPair e st (tokenSymbol t)
         in if \<not> truthy tradingPair then st1
            else
              (let shortAmount = fdiv100 e (amountUsd t);
                   (ok, st2) = gateioOpenShortPosition e st1 tradingPair shortAmount
               in if \<not> ok then st2
                  else
                    (case saveTransaction e st2 (t\<lparr>shortOpened := True\<rparr>) of
                       None \<Rightarrow> st2
                     | Some (t', st3) \<Rightarrow> st3))))"

subsection \<open>handleTokenTransfer\<close>

text \<open>
  The fields read from the transfer object (lines 372 to 400 of the service). The hash is
  read the same way, \<^verbatim>\<open>x.transactionHash || x.hash\<close>, by \<open>processERC20Transfer\<close> and
  \<open>processTransferLog\<close>.
\<close>

definition txHashOf :: "jsval \<Rightarrow> jsval" where
  "txHashOf tx = jsor (optGet tx ''transactionHash'') (optGet tx ''hash'')"

definition tokenAddressRawOf :: "jsval \<Rightarrow> jsval" where
  "tokenAddressRawOf tx =
     jsor (jsor (jsor (optGet tx ''contract'') (optGet tx ''tokenAddress''))
                (optGet tx ''address''))
          (JStr [])"

definition tokenAddressOf :: "env \<Rightarrow> jsval \<Rightarrow> string" where
  "tokenAddressOf e tx =
     toLowerCase (case tokenAddressRawOf tx of
                    JStr s \<Rightarrow> s
                  | raw \<Rightarrow> toStringJS (numberToString e) raw)"

definition tokenSymbolOf :: "jsval \<Rightarrow> jsval" where
  "tokenSymbolOf tx = jsor (jsor (optGet tx ''tokenSymbol'') (optGet tx ''symbol'')) (JStr ''UNKNOWN'')"

definition decimalsOf :: "jsval \<Rightarrow> jsval" where
  "decimalsOf tx =
     (let decimalsRaw = jsor (jsor (optGet tx ''tokenDecimals'') (optGet tx ''decimals'')) (JStr ''18'')
      in case decimalsRaw of JStr s \<Rightarrow> JNum (parseInt s) | _ \<Rightarrow> decimalsRaw)"

definition valueRawOf :: "jsval \<Rightarrow> jsval" where
  "valueRawOf tx = jsor (jsor (optGet tx ''value'') (optGet tx ''amount'')) (JStr ''0'')"

definition blockNumberOf :: "jsval \<Rightarrow> jsval" where
  "blockNumberOf tx =
     (let blockNumberRaw =
            jsor (jsor (jsor (optGet (optGet tx ''block'') ''number'') (optGet tx ''blockNumber''))
                       (optGet tx ''block''))
                 (JStr ''0'')
      in case blockNumberRaw of JStr s \<Rightarrow> JNum (parseInt s) | _ \<Rightarrow> blockNumberRaw)"

text \<open>
  \<^verbatim>\<open>BigInt(valueRaw)\<close> for a string (with or without the \<^verbatim>\<open>0x\<close> prefix, the two
  branches are the same call) and \<^verbatim>\<open>BigInt(valueRaw.toString())\<close> otherwise; a JSON
  payload holds no \<^verbatim>\<open>bigint\<close>, so that branch has no input.
\<close>

definition valueBigIntOf :: "env \<Rightarrow> jsval \<Rightarrow> error + int" where
  "valueBigIntOf e valueRaw =
     (case valueRaw of
        JStr s \<Rightarrow> stringToBigInt s
      | _ \<Rightarrow>
          if \<not> printable valueRaw then Inl TypeError
          else stringToBigInt (toStringJS (numberToString e) valueRaw))"

text \<open>\<^verbatim>\<open>transactionRepository.create({...})\<close> (lines 406 to 416): the new entity, not yet
  saved, with \<^verbatim>\<open>shortOpened: false\<close>.\<close>

definition createTransaction :: "env \<Rightarrow> jsval \<Rightarrow> wallet \<Rightarrow> string \<Rightarrow> jsnum \<Rightarrow> transaction" where
  "createTransaction e tx w amountFormatted usd =
     \<lparr>t_id = None, txHash = txHashOf tx, walletId = w_id w,
      tokenAddress = tokenAddressOf e tx, tokenSymbol = tokenSymbolOf tx,
      amount = amountFormatted, amountUsd = usd, blockNumber = blockNumberOf tx,
      shortOpened = False\<rparr>"

text \<open>
  The method body is one \<^verbatim>\<open>try\<close> whose \<^verbatim>\<open>catch\<close> only logs: wherever an exception is
  raised, the method returns with the state reached so far. Besides \<^verbatim>\<open>BigInt\<close> and
  \<^verbatim>\<open>formatUnits\<close>, the conversions can raise one: \<^verbatim>\<open>String(tokenAddressRaw)\<close>, the
  product with the price, and, after the save, the interpolation of the token symbol into
  the log line and of the hash and block number into the alert text.
\<close>

definition handleTokenTransfer :: "env \<Rightarrow> state \<Rightarrow> jsval \<Rightarrow> wallet \<Rightarrow> state" where
  "handleTokenTransfer e st tx w =
     (if nullish tx then st
      else if \<not> truthy (txHashOf tx) then st
      else if \<not> printable (tokenAddressRawOf tx) then st
      else
        (case valueBigIntOf e (valueRawOf tx) of
           Inl err \<Rightarrow> st
         | Inr valueBigInt \<Rightarrow>
             (case formatUnits e valueBigInt (decimalsOf tx) of
                None \<Rightarrow> st
              | Some amountFormatted \<Rightarrow>
                  (let (tokenPrice, st1) = getTokenPriceInUsd e st (tokenAddressOf e tx)
                   in if \<not> printable tokenPrice then st1
                      else
                        (let usd = fmul e (parseFloat e amountFormatted) (toNumber e tokenPrice);
                             created = createTransaction e tx w amountFormatted usd
                         in case saveTransaction e st1 created of
                              None \<Rightarrow> st1
                            | Some (saved, st2) \<Rightarrow>
                                if \<not> printable (tokenSymbolOf tx) then st2
                                else if \<not> printable (txHashOf tx) \<or>
                                        \<not> printable (blockNumberOf tx) then st2
                                else
                                  (let st3 = sendNotification st2 (chatId w)
                                               (TransferAlert (tokenSymbolOf tx) amountFormatted
                                                  (toFixed2 e usd) (txHashOf tx)
                                                  (blockNumberOf tx))
                                   in if jsgeq usd (thresholdUsd w) then
                                        (let st4 = openShortPosition e st3 saved w
                                         in sendNotification st4 (chatId w)
                                              (ShortAlert (tokenSymbolOf tx) (toFixed2 e usd)))
                                      else st3))))))"

subsection \<open>processTransferLog\<close>

text \<open>
  \<^verbatim>\<open>"0x" + valueHex.slice(-64)\<close>: the last 64 characters of a string; an array has a
  \<^verbatim>\<open>slice\<close> too, and the result is converted to a string by the concatenation; any
  other truthy value has no \<^verbatim>\<open>slice\<close>. \<^verbatim>\<open>log.address?.toLowerCase()\<close> is
  \<^verbatim>\<open>undefined\<close> on a missing address and throws unless the address is a string.
\<close>

definition logValue :: "env \<Rightarrow> jsval \<Rightarrow> error + string" where
  "logValue e valueHex =
     (if truthy valueHex then
        (case valueHex of
           JStr d \<Rightarrow> Inr (''0x'' @ sliceLast 64 d)
         | JArr xs \<Rightarrow>
             if \<not> printable (JArr (drop (length xs - 64) xs)) then Inl TypeError
             else Inr (''0x'' @ toStringJS (numberToString e) (JArr (drop (length xs - 64) xs)))
         | _ \<Rightarrow> Inl TypeError)
      else Inr ''0x0'')"

definition logTokenAddress :: "jsval \<Rightarrow> error + jsval" where
  "logTokenAddress logEntry =
     (case optGet logEntry ''address'' of
        JStr a \<Rightarrow> Inr (JStr (toLowerCase a))
      | JUndefined \<Rightarrow> Inr JUndefined
      | JNull \<Rightarrow> Inr JUndefined
      | _ \<Rightarrow> Inl TypeError)"

definition processTransferLog :: "env \<Rightarrow> state \<Rightarrow> jsval \<Rightarrow> state" where
  "processTransferLog e st logEntry =
     (case getProp logEntry ''topic2'' of
        Inl err \<Rightarrow> st
      | Inr toAddressHex \<Rightarrow>
          if \<not> truthy toAddressHex then st
          else
            (case toAddressHex of
               JStr t2 \<Rightarrow>
                 (let toAddress = ''0x'' @ toLowerCase (sliceLast 40 t2)
                  in case findWallet st (toLowerCase toAddress) of
                       None \<Rightarrow> st
                     | Some w \<Rightarrow>
                         if \<not> isActive w then st
                         else
                           (let h = txHashOf logEntry
                            in if \<not> truthy h then st
                               else
                                 (case findTransaction st h of
                                    Some existingTx \<Rightarrow> st
                                  | None \<Rightarrow>
                                      (case logValue e (optGet logEntry ''data'') of
                                         Inl err \<Rightarrow> st
                                       | Inr v \<Rightarrow>
                                           (case logTokenAddress logEntry of
                                              Inl err \<Rightarrow> st
                                            | Inr a \<Rightarrow>
                                                handleTokenTransfer e st
                                                  (JObj [(''transactionHash'', h),
                                                         (''toAddress'', JStr toAddress),
                                                         (''tokenAddress'', a),
                                                         (''value'', JStr v),
                                                         (''blockNumber'', optGet logEntry ''blockNumber'')])
                                                  w)))))
             | _ \<Rightarrow> st))"

subsection \<open>processERC20Transfer\<close>

text \<open>
  The whole body is inside \<^verbatim>\<open>try\<close>, the \<^verbatim>\<open>catch\<close> only logs. An address that is
  truthy but not a string has no \<^verbatim>\<open>toLowerCase\<close>. (The debug line of the
  already-processed branch interpolates the hash; whether that throws or not, the method
  returns with the state unchanged.)
\<close>

definition processERC20Transfer :: "env \<Rightarrow> state \<Rightarrow> jsval \<Rightarrow> state" where
  "processERC20Transfer e st transfer =
     (case getProp transfer ''to'' of
        Inl err \<Rightarrow> st
      | Inr toField \<Rightarrow>
          (case jsor (jsor toField (optGet transfer ''toAddress'')) (JStr []) of
             JStr a \<Rightarrow>
               (let toAddress = toLowerCase a
                in if toAddress = [] then st
                   else
                     (case findWallet st toAddress of
                        None \<Rightarrow> st
                      | Some w \<Rightarrow>
                          if \<not> isActive w then st
                          else
                            (let h = txHashOf transfer
                             in if \<not> truthy h then st
                                else
                                  (case findTransaction st h of
                                     Some existingTx \<Rightarrow> st
                                   | None \<Rightarrow> handleTokenTransfer e st transfer w))))
           | _ \<Rightarrow> st))"

subsection \<open>handleWebhookEvent\<close>

definition transferSignature :: string where
  "transferSignature = ''0xddf252ad1be2c89b69c2b068fc378daa952ba7f163c4a11628f55a4df523b3ef''"

text \<open>
  The two \<^verbatim>\<open>for\<close> loops. An exception raised by the loop body itself (reading
  \<^verbatim>\<open>transfer.block\<close> or \<^verbatim>\<open>log.topic0\<close> of \<^verbatim>\<open>null\<close>, assigning \<^verbatim>\<open>block\<close> on a
  primitive) leaves the loop; \<open>handleWebhookEvent\<close> logs it and throws it again.
\<close>

fun processTransfers :: "env \<Rightarrow> jsval \<Rightarrow> state \<Rightarrow> jsval list \<Rightarrow> error option \<times> state" where
  "processTransfers e blockNo st [] = (None, st)"
| "processTransfers e blockNo st (transfer # rest) =
     (case getProp transfer ''block'' of
        Inl err \<Rightarrow> (Some err, st)
      | Inr b \<Rightarrow>
          if \<not> truthy b \<and> truthy blockNo then
            (case setProp transfer ''block'' (JObj [(''number'', blockNo)]) of
               Inl err \<Rightarrow> (Some err, st)
             | Inr transfer' \<Rightarrow>
                 processTransfers e blockNo (processERC20Transfer e st transfer') rest)
          else processTransfers e blockNo (processERC20Transfer e st transfer) rest)"

fun processLogs :: "env \<Rightarrow> state \<Rightarrow> jsval list \<Rightarrow> error option \<times> state" where
  "processLogs e st [] = (None, st)"
| "processLogs e st (logEntry # rest) =
     (case getProp logEntry ''topic0'' of
        Inl err \<Rightarrow> (Some err, st)
      | Inr t0 \<Rightarrow>
          if t0 = JStr transferSignature
          then processLogs e (processTransferLog e st logEntry) rest
          else processLogs e st rest)"

text \<open>
  The method starts with a debug line that interpolates \<^verbatim>\<open>body?.confirmed\<close> and
  \<^verbatim>\<open>body?.streamId\<close>; then the test-webhook check, the confirmation check and the two
  loops. Its \<^verbatim>\<open>catch\<close> logs the exception and throws it again.
\<close>

definition isTestWebhook :: "jsval \<Rightarrow> bool" where
  "isTestWebhook body =
     (truthy (optGet body ''tag'') \<and> truthy (optGet body ''streamId'') \<and>
      (\<not> truthy (optGet body ''erc20Transfers'') \<or>
       optGet (optGet body ''erc20Transfers'') ''length'' = JNum (Fin 0)) \<and>
      (\<not> truthy (optGet body ''logs'') \<or>
       optGet (optGet body ''logs'') ''length'' = JNum (Fin 0)))"

definition handleWebhookEvent :: "env \<Rightarrow> state \<Rightarrow> jsval \<Rightarrow> error option \<times> state" where
  "handleWebhookEvent e st body =
     (if \<not> printable (optGet body ''confirmed'') \<or> \<not> printable (optGet body ''streamId'')
      then (Some TypeError, st)
      else if isTestWebhook body then (None, st)
      else if \<not> truthy (optGet body ''confirmed'') then (None, st)
      else
        (let erc20Transfers = jsor (optGet body ''erc20Transfers'') (JArr []);
             blockNo = jsor (optGet (optGet body ''block'') ''number'') (optGet body ''blockNumber'')
         in case iterate erc20Transfers of
              Inl err \<Rightarrow> (Some err, st)
            | Inr ts \<Rightarrow>
                (case processTransfers e blockNo st ts of
                   (Some err, st1) \<Rightarrow> (Some err, st1)
                 | (None, st1) \<Rightarrow>
                     (case iterate (jsor (optGet body ''logs'') (JArr [])) of
                        Inl err \<Rightarrow> (Some err, st1)
                      | Inr ls \<Rightarrow> processLogs e st1 ls))))"

section \<open>WebhookController\<close>

record response =
  status :: nat
  json :: jsval

text \<open>
  \<open>handleMoralisWebhook\<close>: the logging lines come first. They interpolate
  \<^verbatim>\<open>body?.erc20Transfers?.length || 0\<close>, \<^verbatim>\<open>body?.confirmed\<close> and
  \<^verbatim>\<open>body?.streamId\<close>; when \<^verbatim>\<open>body?.erc20Transfers?.length > 0\<close>, the first transfer is
  read and its \<^verbatim>\<open>to\<close>, \<^verbatim>\<open>from\<close>, \<^verbatim>\<open>value\<close> and \<^verbatim>\<open>tokenSymbol\<close> are interpolated,
  which throws a TypeError when that entry is \<^verbatim>\<open>null\<close>. On an exception the handler ends
  there, before the processing is scheduled and before \<^verbatim>\<open>res.status(200)\<close>. Otherwise
  the processing is scheduled with \<^verbatim>\<open>setImmediate\<close> under a \<^verbatim>\<open>try\<close> whose \<^verbatim>\<open>catch\<close>
  only logs, and the response is 200 with \<^verbatim>\<open>{ status: "ok" }\<close>. The result is what the
  caller receives (\<open>Inl\<close>: the handler threw) and the state once the scheduled processing
  has run.
\<close>

definition logFirstTransfer :: "jsval \<Rightarrow> error + unit" where
  "logFirstTransfer transfer =
     (case getProp transfer ''to'' of
        Inl err \<Rightarrow> Inl err
      | Inr toField \<Rightarrow>
          if printable toField \<and> printable (optGet transfer ''from'') \<and>
             printable (optGet transfer ''value'') \<and> printable (optGet transfer ''tokenSymbol'')
          then Inr ()
          else Inl TypeError)"

definition handleMoralisWebhook :: "env \<Rightarrow> state \<Rightarrow> jsval \<Rightarrow> (error + response) \<times> state" where
  "handleMoralisWebhook e st body =
     (let transfers = optGet body ''erc20Transfers'';
          logged =
            (if \<not> printable (optGet transfers ''length'') then Inl TypeError
             else if \<not> printable (optGet body ''confirmed'') \<or>
                     \<not> printable (optGet body ''streamId'') then Inl TypeError
             else if jsgt (toNumber e (optGet transfers ''length'')) (Fin 0)
             then logFirstTransfer (optGet transfers ''0'')
             else Inr ())
      in case logged of
           Inl err \<Rightarrow> (Inl err, st)
         | Inr u \<Rightarrow>
             (Inr \<lparr>status = 200, json = JObj [(''status'', JStr ''ok'')]\<rparr>,
              snd (handleWebhookEvent e st body)))"

section \<open>Example deliveries\<close>

text \<open>
  A concrete environment and concrete payloads, used to run the model: one registered,
  active wallet with the default threshold of 1000 USD, a token priced at 2 USD, a market
  \<^verbatim>\<open>ABC_USDT\<close>, and a transfer of \<open>5 * 10^18\<close> base units in both payload shapes.
\<close>

definition exactMul :: "jsnum \<Rightarrow> jsnum \<Rightarrow> jsnum" where
  "exactMul a b = (case (a, b) of (Fin x, Fin y) \<Rightarrow> Fin (x * y) | _ \<Rightarrow> NaN)"

definition exampleEnv :: env where
  "exampleEnv =
     \<lparr>priceResponse = (\<lambda>tr a. Some (JObj [(a, JObj [(''usd'', JNum (Fin 2))])])),
      pairsResponse =
        (\<lambda>tr. Some (JArr [JObj [(''id'', JStr ''ABC_USDT''), (''base'', JStr ''ABC''),
                                 (''quote'', JStr ''USDT'')]])),
      orderOk = (\<lambda>tr p a. True),
      saveOk = (\<lambda>tr t. True),
      formatUnits =
        (\<lambda>v d. if v = 5000000000000000000 \<and> d = JNum (Fin 18) then Some ''5.0'' else None),
      parseFloat = (\<lambda>s. if s = ''5.0'' then Fin 5 else NaN),
      fmul = exactMul,
      fdiv100 = (\<lambda>a. case a of Fin x \<Rightarrow> Fin (x / 100) | _ \<Rightarrow> a),
      numberToString = (\<lambda>n. ''NaN''),
      stringToNumber = (\<lambda>s. NaN),
      toFixed2 = (\<lambda>n. if n = Fin 10 then ''10.00'' else if n = Fin 0 then ''0.00'' else ''NaN'')\<rparr>"

definition exampleWallet :: wallet where
  "exampleWallet =
     \<lparr>w_id = 1, address = ''0x0000000000000000000000000000000000000abc'', chatId = 42,
      thresholdUsd = Fin 1000, isActive = True, streamId = None\<rparr>"

definition exampleState :: state where
  "exampleState = \<lparr>wallets = [exampleWallet], transactions = [], trace = []\<rparr>"

definition exampleTransfer :: jsval where
  "exampleTransfer =
     JObj [(''transactionHash'', JStr ''0xaa''),
           (''to'', JStr ''0x0000000000000000000000000000000000000ABC''),
           (''contract'', JStr ''0xC0''),
           (''tokenSymbol'', JStr ''ABC''),
           (''value'', JStr ''5000000000000000000'')]"

definition exampleLog :: jsval where
  "exampleLog =
     JObj [(''topic0'', JStr transferSignature),
           (''topic2'', JStr ''0x0000000000000000000000000000000000000000000000000000000000000ABC''),
           (''transactionHash'', JStr ''0xaa''),
           (''address'', JStr ''0xC0''),
           (''data'', JStr ''0x0000000000000000000000000000000000000000000000004563918244f40000'')]"

text \<open>The row that the example transfer leaves behind, and the state that holds it.\<close>

definition exampleRecord :: transaction where
  "exampleRecord =
     \<lparr>t_id = Some 1, txHash = JStr ''0xaa'', walletId = 1, tokenAddress = ''0xc0'',
      tokenSymbol = JStr ''ABC'', amount = ''5.0'', amountUsd = Fin 10,
      blockNumber = JNum (Fin 0), shortOpened = False\<rparr>"

definition seenState :: state where
  "seenState = \<lparr>wallets = [exampleWallet], transactions = [exampleRecord], trace = []\<rparr>"

definition unconfirmedBody :: jsval where
  "unconfirmedBody = JObj [(''confirmed'', JBool False), (''erc20Transfers'', JArr [exampleTransfer])]"

definition pingBody :: jsval where
  "pingBody =
     JObj [(''tag'', JStr ''wallet_1''), (''streamId'', JStr ''s-1''),
           (''erc20Transfers'', JArr []), (''logs'', JArr [])]"

text \<open>The same wallet with a threshold of 5 USD, an environment whose exchange lists no
  market, a state holding a row whose short is already open, and a confirmed delivery of
  the example transfer.\<close>

definition eagerWallet :: wallet where
  "eagerWallet = exampleWallet\<lparr>thresholdUsd := Fin 5\<rparr>"

definition eagerState :: state where
  "eagerState = \<lparr>wallets = [eagerWallet], transactions = [], trace = []\<rparr>"

definition noMarketEnv :: env where
  "noMarketEnv = exampleEnv\<lparr>pairsResponse := (\<lambda>tr. Some (JArr []))\<rparr>"

definition noPriceEnv :: env where
  "noPriceEnv = exampleEnv\<lparr>priceResponse := (\<lambda>tr a. None)\<rparr>"

definition openedRecord :: transaction where
  "openedRecord =
     \<lparr>t_id = Some 1, txHash = JStr ''0xbb'', walletId = 1, tokenAddress = ''0xc0'',
      tokenSymbol = JStr ''ABC'', amount = ''5.0'', amountUsd = Fin 10,
      blockNumber = JNum (Fin 0), shortOpened = True\<rparr>"

definition openedState :: state where
  "openedState = \<lparr>wallets = [eagerWallet], transactions = [openedRecord], trace = []\<rparr>"

definition confirmedBody :: jsval where
  "confirmedBody = JObj [(''confirmed'', JBool True), (''erc20Transfers'', JArr [exampleTransfer])]"

definition otherLog :: jsval where
  "otherLog =
     JObj [(''topic0'', JStr ''0x8c5be1e5ebec7d5bd14f71427d1e84f3dd0314c0f7b2291e5b200ac8c7c3b925''),
           (''topic2'', JStr ''0x0000000000000000000000000000000000000000000000000000000000000ABC''),
           (''transactionHash'', JStr ''0xcc'')]"

definition zeroDecimalsFields :: "(string \<times> jsval) list" where
  "zeroDecimalsFields =
     [(''transactionHash'', JStr ''0xaa''), (''decimals'', JNum (Fin 0)),
      (''value'', JStr ''5000000000000000000'')]"

text \<open>An environment whose \<^verbatim>\<open>formatUnits\<close> tells 18 decimals from 0, a transfer whose
  \<^verbatim>\<open>decimals\<close> is the string \<^verbatim>\<open>"0"\<close>, and a test webhook whose stream id is an object
  with a property named \<^verbatim>\<open>toString\<close>.\<close>

definition decimalsEnv :: env where
  "decimalsEnv =
     exampleEnv\<lparr>formatUnits :=
       (\<lambda>v d. if v = 5000000000000000000 \<and> d = JNum (Fin 18) then Some ''5.0''
              else if v = 5000000000000000000 \<and> d = JNum (Fin 0) then Some ''5000000000000000000''
              else None)\<rparr>"

definition stringZeroFields :: "(string \<times> jsval) list" where
  "stringZeroFields =
     [(''transactionHash'', JStr ''0xaa''), (''decimals'', JStr ''0''),
      (''value'', JStr ''5000000000000000000'')]"

definition oddPingBody :: jsval where
  "oddPingBody =
     JObj [(''tag'', JStr ''wallet_1''), (''streamId'', JObj [(''toString'', JNum (Fin 1))])]"

section \<open>Properties of a run\<close>

text \<open>The events a run added to the trace.\<close>

definition newEvents :: "state \<Rightarrow> state \<Rightarrow> event list" where
  "newEvents st st' = drop (length (trace st)) (trace st')"

text \<open>No row disappears, and a row whose flag was set still has it set.\<close>

definition flagsKept :: "transaction list \<Rightarrow> transaction list \<Rightarrow> bool" where
  "flagsKept ts ts' \<longleftrightarrow>
     length ts \<le> length ts' \<and> (\<forall>i < length ts. shortOpened (ts ! i) \<longrightarrow> shortOpened (ts' ! i))"

text \<open>A write to the transaction table either inserts a row with the flag clear or
  updates a row to have it set.\<close>

definition flagWrite :: "event \<Rightarrow> bool" where
  "flagWrite ev =
     (case ev of Inserted t \<Rightarrow> \<not> shortOpened t | Updated t \<Rightarrow> shortOpened t | _ \<Rightarrow> True)"

text \<open>The log line and the alert text of a row can be built: its symbol, hash and block
  number convert to strings.\<close>

definition describable :: "transaction \<Rightarrow> bool" where
  "describable t \<longleftrightarrow> printable (tokenSymbol t) \<and> printable (txHash t) \<and> printable (blockNumber t)"

definition tradeEvent :: "event \<Rightarrow> bool" where
  "tradeEvent ev =
     (case ev of MarketLookup s \<Rightarrow> True | SellOrder p a \<Rightarrow> True | Updated t \<Rightarrow> shortOpened t
      | _ \<Rightarrow> False)"

definition goodStep :: "state \<Rightarrow> state \<Rightarrow> bool" where
  "goodStep st st' \<longleftrightarrow>
     wallets st' = wallets st \<and>
     (\<exists>evs. trace st' = trace st @ evs \<and> (\<forall>ev \<in> set evs. flagWrite ev)) \<and>
     flagsKept (transactions st) (transactions st')"

text \<open>A truthy decimals value as the code uses it: a string through \<^verbatim>\<open>parseInt\<close>,
  anything else unchanged.\<close>

definition givenDecimals :: "jsval \<Rightarrow> jsval" where
  "givenDecimals d = (case d of JStr s \<Rightarrow> JNum (parseInt s) | _ \<Rightarrow> d)"

text \<open>A payload object without its \<^verbatim>\<open>decimals\<close> and \<^verbatim>\<open>tokenDecimals\<close> properties.\<close>

definition removeKey :: "string \<Rightarrow> (string \<times> jsval) list \<Rightarrow> (string \<times> jsval) list" where
  "removeKey k kvs = filter (\<lambda>p. fst p \<noteq> k) kvs"

definition withoutDecimals :: "(string \<times> jsval) list \<Rightarrow> (string \<times> jsval) list" where
  "withoutDecimals kvs = removeKey ''decimals'' (removeKey ''tokenDecimals'' kvs)"

section \<open>Replayed transfers\<close>

lemma findTransaction_present:
  assumes "t \<in> set (transactions st)" "txHash t = h"
  shows "\<exists>r. findTransaction st h = Some r"
proof (cases "findTransaction st h")
  case None
  with assms show ?thesis by (auto simp: findTransaction_def find_None_iff)
qed simp

lemma processERC20Transfer_seen:
  assumes "findTransaction st (txHashOf ev) = Some r"
  shows "processERC20Transfer e st ev = st"
  using assms
  by (simp add: processERC20Transfer_def Let_def
      split: sum.split jsval.split option.split)

lemma processTransferLog_seen:
  assumes "findTransaction st (txHashOf ev) = Some r"
  shows "processTransferLog e st ev = st"
  using assms
  by (simp add: processTransferLog_def Let_def
      split: sum.split jsval.split option.split)

text \<open>
  C1. An event, in either payload shape, whose hash
  (\<^verbatim>\<open>transactionHash || hash\<close>) is the \<open>txHash\<close> of a persisted row is a no-op: the
  state after \<open>processERC20Transfer\<close> and after \<open>processTransferLog\<close> is the state
  before, so no row is added and the trace gains no notification, market lookup or order.
\<close>

theorem duplicate_hash_is_noop:
  assumes "\<exists>t \<in> set (transactions st). txHash t = txHashOf ev"
  shows "processERC20Transfer e st ev = st \<and> processTransferLog e st ev = st"
proof -
  from assms obtain r where "findTransaction st (txHashOf ev) = Some r"
    using findTransaction_present by blast
  then show ?thesis
    by (simp add: processERC20Transfer_seen processTransferLog_seen)
qed

theorem duplicate_hash_is_noop_witness:
  "exampleRecord \<in> set (transactions seenState) \<and>
   txHash exampleRecord = txHashOf exampleTransfer \<and>
   txHash exampleRecord = txHashOf exampleLog \<and>
   processERC20Transfer exampleEnv seenState exampleTransfer = seenState \<and>
   processTransferLog exampleEnv seenState exampleLog = seenState"
proof -
  have h: "exampleRecord \<in> set (transactions seenState)"
    by (simp add: seenState_def)
  have t: "txHash exampleRecord = txHashOf exampleTransfer"
    by (simp add: exampleRecord_def exampleTransfer_def txHashOf_def jsor_def)
  have l: "txHash exampleRecord = txHashOf exampleLog"
    by (simp add: exampleRecord_def exampleLog_def txHashOf_def jsor_def)
  show ?thesis
    using h t l
      duplicate_hash_is_noop [of seenState exampleTransfer exampleEnv]
      duplicate_hash_is_noop [of seenState exampleLog exampleEnv]
    by blast
qed

section \<open>Deliveries that are ignored\<close>

text \<open>
  C4. A delivery whose \<^verbatim>\<open>confirmed\<close> is falsy (false, absent, \<^verbatim>\<open>null\<close>) changes
  nothing, whatever transfers and logs it carries: \<open>handleWebhookEvent\<close> ends with the
  state it was given, and so does the processing scheduled by the controller.
\<close>

theorem unconfirmed_delivery_is_ignored:
  assumes "\<not> truthy (optGet body ''confirmed'')"
  shows "snd (handleWebhookEvent e st body) = st \<and> snd (handleMoralisWebhook e st body) = st"
  using assms
  by (simp add: handleWebhookEvent_def handleMoralisWebhook_def Let_def split: sum.split)

theorem unconfirmed_delivery_is_ignored_witness:
  "\<not> truthy (optGet unconfirmedBody ''confirmed'') \<and>
   snd (handleWebhookEvent exampleEnv exampleState unconfirmedBody) = exampleState \<and>
   snd (handleMoralisWebhook exampleEnv exampleState unconfirmedBody) = exampleState"
proof -
  have h: "\<not> truthy (optGet unconfirmedBody ''confirmed'')"
    by (simp add: unconfirmedBody_def)
  show ?thesis
    using h unconfirmed_delivery_is_ignored [OF h, of exampleEnv exampleState] by simp
qed

lemma falsy_length_not_positive:
  "\<not> truthy v \<Longrightarrow>
   \<not> jsgt (toNumber e (optGet v ''length'')) (Fin 0) \<and> printable (optGet v ''length'')"
  by (cases v) (auto simp: indexKey_def)

text \<open>
  A test webhook (the condition of the first \<^verbatim>\<open>if\<close> of \<open>handleWebhookEvent\<close>: tag and
  stream id truthy, transfers and logs falsy or of length 0) whose confirmation flag and
  stream id convert to strings is answered with 200 and \<^verbatim>\<open>{"status":"ok"}\<close>; its
  processing returns without an exception and leaves the state as it was.
\<close>

lemma printable_ping_is_acknowledged:
  assumes "isTestWebhook body"
    and "printable (optGet body ''confirmed'')" "printable (optGet body ''streamId'')"
  shows "handleMoralisWebhook e st body =
           (Inr \<lparr>status = 200, json = JObj [(''status'', JStr ''ok'')]\<rparr>, st) \<and>
         handleWebhookEvent e st body = (None, st)"
proof -
  have len: "\<not> jsgt (toNumber e (optGet (optGet body ''erc20Transfers'') ''length'')) (Fin 0) \<and>
             printable (optGet (optGet body ''erc20Transfers'') ''length'')"
    using assms(1) falsy_length_not_positive [of "optGet body ''erc20Transfers''" e]
    by (auto simp: isTestWebhook_def)
  have ev: "handleWebhookEvent e st body = (None, st)"
    using assms by (simp add: handleWebhookEvent_def)
  show ?thesis
    using len ev assms(2,3) by (simp add: handleMoralisWebhook_def)
qed

text \<open>
  C5. The claim is that every verification ping (tag and stream id present, no transfer
  and no log entries) is answered with success and processed without an error. The body
  \<^verbatim>\<open>{"tag":"wallet_1","streamId":{"toString":1}}\<close> meets the test-webhook condition,
  yet the controller throws a TypeError while it interpolates \<^verbatim>\<open>body?.streamId\<close> into
  its log line, before \<^verbatim>\<open>res.status(200)\<close>, and \<open>handleWebhookEvent\<close> throws the same
  TypeError at its first debug line, in every environment and state.
\<close>

theorem unprintable_stream_id_breaks_ping:
  "isTestWebhook oddPingBody \<and>
   handleMoralisWebhook e st oddPingBody = (Inl TypeError, st) \<and>
   handleWebhookEvent e st oddPingBody = (Some TypeError, st)"
  by (simp add: oddPingBody_def isTestWebhook_def handleMoralisWebhook_def handleWebhookEvent_def)

theorem unprintable_stream_id_breaks_ping_witness:
  "isTestWebhook oddPingBody \<and>
   handleMoralisWebhook exampleEnv exampleState oddPingBody = (Inl TypeError, exampleState) \<and>
   handleWebhookEvent exampleEnv exampleState oddPingBody = (Some TypeError, exampleState)"
  by (rule unprintable_stream_id_breaks_ping)

section \<open>The acknowledgement\<close>

text \<open>
  C2. The claim is that every delivery is answered with 200. For the body
  \<^verbatim>\<open>{"erc20Transfers":[null]}\<close> the handler throws a TypeError while it builds its log
  line (\<^verbatim>\<open>transfer.to\<close> of \<^verbatim>\<open>null\<close>), before \<^verbatim>\<open>res.status(200)\<close> is reached and
  before any processing is scheduled, in every environment and state.
\<close>

theorem null_transfer_entry_breaks_acknowledgement:
  "handleMoralisWebhook e st (JObj [(''erc20Transfers'', JArr [JNull])]) = (Inl TypeError, st)"
  by (simp add: handleMoralisWebhook_def logFirstTransfer_def getProp_def indexKey_def
      digitVal_def decimalDigits_def hexLetters_def nth_or_undefined_def)

theorem null_transfer_entry_breaks_acknowledgement_witness:
  "handleMoralisWebhook exampleEnv exampleState (JObj [(''erc20Transfers'', JArr [JNull])]) =
     (Inl TypeError, exampleState)"
  by (rule null_transfer_entry_breaks_acknowledgement)


section \<open>Evaluating the examples\<close>

lemmas example_defs = exampleEnv_def exampleWallet_def exampleState_def exampleTransfer_def
  exampleLog_def exactMul_def exampleRecord_def seenState_def eagerWallet_def eagerState_def
  noMarketEnv_def noPriceEnv_def openedRecord_def openedState_def confirmedBody_def
lemmas string_defs = toLowerCase_def toUpperCase_def upperLetters_def lowerLetters_def
  sliceLast_def trim_def isWhiteSpace_def parseInt_def parseIntUnsigned_def parseIntDigits_def
  digitVal_def decimalDigits_def hexLetters_def allDigits_def stringToBigInt_def indexKey_def
lemmas service_defs = getTokenPriceInUsd_def sendNotification_def findTradingPair_def
  gateioOpenShortPosition_def openShortPosition_def txHashOf_def tokenAddressRawOf_def
  tokenAddressOf_def
  tokenSymbolOf_def decimalsOf_def valueRawOf_def blockNumberOf_def valueBigIntOf_def
  createTransaction_def handleTokenTransfer_def logValue_def logTokenAddress_def
  processTransferLog_def processERC20Transfer_def emit_def findWallet_def findTransaction_def
  newId_def saveTransaction_def jsor_def getProp_def Let_def
  handleWebhookEvent_def isTestWebhook_def

lemma run_below_threshold:
  "handleTokenTransfer exampleEnv exampleState exampleTransfer exampleWallet =
     \<lparr>wallets = [exampleWallet], transactions = [exampleRecord],
      trace = [PriceLookup ''0xc0'', Inserted exampleRecord,
               Notified 42 (TransferAlert (JStr ''ABC'') ''5.0'' ''10.00'' (JStr ''0xaa'')
                              (JNum (Fin 0)))]\<rparr>"
  by (simp add: example_defs string_defs service_defs)

lemma run_above_threshold:
  "handleTokenTransfer exampleEnv eagerState exampleTransfer eagerWallet =
     \<lparr>wallets = [eagerWallet], transactions = [exampleRecord\<lparr>shortOpened := True\<rparr>],
      trace = [PriceLookup ''0xc0'', Inserted exampleRecord,
               Notified 42 (TransferAlert (JStr ''ABC'') ''5.0'' ''10.00'' (JStr ''0xaa'')
                              (JNum (Fin 0))),
               MarketLookup (JStr ''ABC''), SellOrder (JStr ''ABC_USDT'') (Fin (1 / 10)),
               Updated (exampleRecord\<lparr>shortOpened := True\<rparr>),
               Notified 42 (ShortAlert (JStr ''ABC'') ''10.00'')]\<rparr>"
  by (simp add: example_defs string_defs service_defs)

lemma run_without_price:
  "handleTokenTransfer noPriceEnv exampleState exampleTransfer exampleWallet =
     \<lparr>wallets = [exampleWallet], transactions = [exampleRecord\<lparr>amountUsd := Fin 0\<rparr>],
      trace = [PriceLookup ''0xc0'', Inserted (exampleRecord\<lparr>amountUsd := Fin 0\<rparr>),
               Notified 42 (TransferAlert (JStr ''ABC'') ''5.0'' ''0.00'' (JStr ''0xaa'')
                              (JNum (Fin 0)))]\<rparr>"
  by (simp add: example_defs string_defs service_defs)

lemma run_beside_opened_row:
  "handleWebhookEvent exampleEnv openedState confirmedBody =
     (None,
      \<lparr>wallets = [eagerWallet],
       transactions = [openedRecord, exampleRecord\<lparr>t_id := Some 2, shortOpened := True\<rparr>],
       trace = [PriceLookup ''0xc0'', Inserted (exampleRecord\<lparr>t_id := Some 2\<rparr>),
                Notified 42 (TransferAlert (JStr ''ABC'') ''5.0'' ''10.00'' (JStr ''0xaa'')
                               (JNum (Fin 0))),
                MarketLookup (JStr ''ABC''), SellOrder (JStr ''ABC_USDT'') (Fin (1 / 10)),
                Updated (exampleRecord\<lparr>t_id := Some 2, shortOpened := True\<rparr>),
                Notified 42 (ShortAlert (JStr ''ABC'') ''10.00'')]\<rparr>)"
  by (simp add: example_defs string_defs service_defs)

section \<open>Normalising an indexed log entry\<close>

lemma toLowerCase_append: "toLowerCase (a @ b) = toLowerCase a @ toLowerCase b"
  by (simp add: toLowerCase_def)

lemma toLowerCase_idem: "toLowerCase (toLowerCase s) = toLowerCase s"
  by (induction s) (auto simp: toLowerCase_def upperLetters_def lowerLetters_def)

lemma toLowerCase_0x: "toLowerCase (''0x'' @ toLowerCase s) = ''0x'' @ toLowerCase s"
  by (simp add: toLowerCase_append toLowerCase_idem)
    (simp add: toLowerCase_def upperLetters_def lowerLetters_def)

lemma processLogs_skip:
  assumes "optGet logEntry ''topic0'' \<noteq> JStr transferSignature"
  shows "snd (processLogs e st [logEntry]) = st"
    and "\<not> nullish logEntry \<Longrightarrow> processLogs e st (logEntry # rest) = processLogs e st rest"
  using assms by (simp_all add: getProp_def)

lemma processTransferLog_normalized:
  assumes "optGet logEntry ''topic2'' = JStr t2" "t2 \<noteq> []"
    and "findWallet st (''0x'' @ toLowerCase (sliceLast 40 t2)) = Some w" "isActive w"
    and "truthy (txHashOf logEntry)" "findTransaction st (txHashOf logEntry) = None"
    and "optGet logEntry ''data'' = JStr d" "d \<noteq> []"
    and "logTokenAddress logEntry = Inr a"
  shows "processTransferLog e st logEntry =
           handleTokenTransfer e st
             (JObj [(''transactionHash'', txHashOf logEntry),
                    (''toAddress'', JStr (''0x'' @ toLowerCase (sliceLast 40 t2))),
                    (''tokenAddress'', a),
                    (''value'', JStr (''0x'' @ sliceLast 64 d)),
                    (''blockNumber'', optGet logEntry ''blockNumber'')])
             w"
proof -
  have nn: "\<not> nullish logEntry"
    using assms(1) by (cases logEntry) auto
  show ?thesis
    using assms nn toLowerCase_0x [of "sliceLast 40 t2"]
    by (simp add: processTransferLog_def getProp_def logValue_def Let_def del: optGet.simps)
qed

text \<open>
  C6. In the loop over \<^verbatim>\<open>body.logs\<close>, an entry whose \<^verbatim>\<open>topic0\<close> is not the Transfer
  signature is not processed: it leaves the state as it is and the loop goes on with the
  next entry. An entry that reaches \<open>handleTokenTransfer\<close> (string \<^verbatim>\<open>topic2\<close>, active
  wallet found, fresh hash, string \<^verbatim>\<open>data\<close>) is passed on as the transfer object whose
  \<^verbatim>\<open>toAddress\<close> is \<^verbatim>\<open>0x\<close> followed by the last 40 characters of \<^verbatim>\<open>topic2\<close> in lower
  case, and whose \<^verbatim>\<open>value\<close> is \<^verbatim>\<open>0x\<close> followed by the last 64 characters of
  \<^verbatim>\<open>data\<close>; the wallet is looked up under that address.
\<close>

theorem log_entry_normalisation:
  "(optGet logEntry ''topic0'' \<noteq> JStr transferSignature \<longrightarrow>
      snd (processLogs e st [logEntry]) = st \<and>
      (\<not> nullish logEntry \<longrightarrow> processLogs e st (logEntry # rest) = processLogs e st rest)) \<and>
   (optGet logEntry ''topic2'' = JStr topicTo \<and> topicTo \<noteq> [] \<and>
    findWallet st (''0x'' @ toLowerCase (sliceLast 40 topicTo)) = Some w \<and> isActive w \<and>
    truthy (txHashOf logEntry) \<and> findTransaction st (txHashOf logEntry) = None \<and>
    optGet logEntry ''data'' = JStr d \<and> d \<noteq> [] \<and> logTokenAddress logEntry = Inr a \<longrightarrow>
      processTransferLog e st logEntry =
        handleTokenTransfer e st
          (JObj [(''transactionHash'', txHashOf logEntry),
                 (''toAddress'', JStr (''0x'' @ toLowerCase (sliceLast 40 topicTo))),
                 (''tokenAddress'', a),
                 (''value'', JStr (''0x'' @ sliceLast 64 d)),
                 (''blockNumber'', optGet logEntry ''blockNumber'')])
          w)"
  using processLogs_skip(1) [of logEntry e st]
    processLogs_skip(2) [of logEntry e st rest]
    processTransferLog_normalized [of logEntry topicTo st w d a e]
  by blast

theorem log_entry_normalisation_witness:
  "optGet otherLog ''topic0'' \<noteq> JStr transferSignature \<and>
   snd (processLogs exampleEnv exampleState [otherLog]) = exampleState \<and>
   processLogs exampleEnv exampleState [otherLog, exampleLog] =
     processLogs exampleEnv exampleState [exampleLog] \<and>
   sliceLast 40 ''0x0000000000000000000000000000000000000000000000000000000000000ABC'' =
     ''0000000000000000000000000000000000000ABC'' \<and>
   sliceLast 64 ''0x0000000000000000000000000000000000000000000000004563918244f40000'' =
     ''0000000000000000000000000000000000000000000000004563918244f40000'' \<and>
   processTransferLog exampleEnv exampleState exampleLog =
     handleTokenTransfer exampleEnv exampleState
       (JObj [(''transactionHash'', JStr ''0xaa''),
              (''toAddress'', JStr ''0x0000000000000000000000000000000000000abc''),
              (''tokenAddress'', JStr ''0xc0''),
              (''value'',
               JStr ''0x0000000000000000000000000000000000000000000000004563918244f40000''),
              (''blockNumber'', JUndefined)])
       exampleWallet"
  using log_entry_normalisation
      [where logEntry = otherLog and e = exampleEnv and st = exampleState
         and rest = "[exampleLog]"]
    log_entry_normalisation
      [where logEntry = exampleLog and e = exampleEnv and st = exampleState
         and topicTo = "''0x0000000000000000000000000000000000000000000000000000000000000ABC''"
         and w = exampleWallet
         and d = "''0x0000000000000000000000000000000000000000000000004563918244f40000''"
         and a = "JStr ''0xc0''"]
  by (simp add: otherLog_def exampleLog_def exampleState_def exampleWallet_def
      transferSignature_def sliceLast_def toLowerCase_def upperLetters_def lowerLetters_def
      findWallet_def findTransaction_def txHashOf_def jsor_def logTokenAddress_def)

section \<open>The effects of one transfer\<close>

lemma emit_simps [simp]:
  "trace (emit ev st) = trace st @ [ev]"
  "transactions (emit ev st) = transactions st"
  "wallets (emit ev st) = wallets st"
  by (simp_all add: emit_def)

lemma snd_findTradingPair: "snd (findTradingPair e st s) = emit (MarketLookup s) st"
  by (simp add: findTradingPair_def Let_def split: jsval.split sum.split option.split)

lemma snd_getTokenPriceInUsd:
  "snd (getTokenPriceInUsd e st a) = emit (PriceLookup (toLowerCase a)) st"
  by (simp add: getTokenPriceInUsd_def Let_def split: option.split sum.split)

lemma saveTransaction_insert:
  assumes "saveTransaction e st t = Some (t', st')" "t_id t = None"
  shows "t' = t\<lparr>t_id := Some (newId (transactions st))\<rparr> \<and>
         st' = emit (Inserted t') (st\<lparr>transactions := transactions st @ [t']\<rparr>)"
  using assms by (auto simp: saveTransaction_def Let_def split: if_splits)

lemma saveTransaction_update:
  assumes "saveTransaction e st t = Some (t', st')" "t_id t = Some i"
    and "\<exists>r \<in> set (transactions st). t_id r = Some i"
  shows "t' = t \<and>
         st' = emit (Updated t)
                 (st\<lparr>transactions := map (\<lambda>r. if t_id r = Some i then t else r) (transactions st)\<rparr>)"
  using assms by (auto simp: saveTransaction_def Let_def split: if_splits)

lemma openShortPosition_cases:
  "((shortOpened t \<or> \<not> printable (tokenSymbol t)) \<and> openShortPosition e st t w = st) \<or>
   (\<not> shortOpened t \<and> printable (tokenSymbol t) \<and>
      openShortPosition e st t w = emit (MarketLookup (tokenSymbol t)) st) \<or>
   (\<not> shortOpened t \<and> printable (tokenSymbol t) \<and>
      (\<exists>p a. openShortPosition e st t w =
               emit (SellOrder p a) (emit (MarketLookup (tokenSymbol t)) st))) \<or>
   (\<not> shortOpened t \<and> printable (tokenSymbol t) \<and>
      (\<exists>p a t' st3.
          saveTransaction e (emit (SellOrder p a) (emit (MarketLookup (tokenSymbol t)) st))
            (t\<lparr>shortOpened := True\<rparr>) = Some (t', st3) \<and>
          openShortPosition e st t w = st3))"
proof (cases "shortOpened t \<or> \<not> printable (tokenSymbol t)")
  case True
  then show ?thesis by (auto simp: openShortPosition_def)
next
  case False
  obtain p st1 where f: "findTradingPair e st (tokenSymbol t) = (p, st1)"
    by (cases "findTradingPair e st (tokenSymbol t)")
  then have st1: "st1 = emit (MarketLookup (tokenSymbol t)) st"
    using snd_findTradingPair [of e st "tokenSymbol t"] by simp
  show ?thesis
    using False f st1
    by (auto simp: openShortPosition_def gateioOpenShortPosition_def Let_def split: option.split)
qed

lemma handleTokenTransfer_result:
  obtains (skipped) "handleTokenTransfer e st tx w = st"
  | (refused) a where "handleTokenTransfer e st tx w = emit (PriceLookup a) st"
  | (silent) a saved where
      "t_id saved \<noteq> None" "\<not> shortOpened saved" "\<not> describable saved"
      "handleTokenTransfer e st tx w =
         emit (Inserted saved)
           ((emit (PriceLookup a) st)\<lparr>transactions := transactions st @ [saved]\<rparr>)"
  | (persisted) a saved m1 m2 st3 where
      "t_id saved \<noteq> None" "\<not> shortOpened saved" "describable saved"
      "st3 = emit (Notified (chatId w) m1)
               (emit (Inserted saved)
                  ((emit (PriceLookup a) st)\<lparr>transactions := transactions st @ [saved]\<rparr>))"
      "handleTokenTransfer e st tx w =
         (if jsgeq (amountUsd saved) (thresholdUsd w)
          then emit (Notified (chatId w) m2) (openShortPosition e st3 saved w)
          else st3)"
proof (cases "nullish tx \<or> \<not> truthy (txHashOf tx) \<or> \<not> printable (tokenAddressRawOf tx)")
  case True
  then have "handleTokenTransfer e st tx w = st"
    by (auto simp: handleTokenTransfer_def)
  then show ?thesis by (rule skipped)
next
  case pre: False
  show ?thesis
  proof (cases "valueBigIntOf e (valueRawOf tx)")
    case (Inl err)
    with pre have "handleTokenTransfer e st tx w = st"
      by (simp add: handleTokenTransfer_def)
    then show ?thesis by (rule skipped)
  next
    case (Inr v)
    show ?thesis
    proof (cases "formatUnits e v (decimalsOf tx)")
      case None
      with pre Inr have "handleTokenTransfer e st tx w = st"
        by (simp add: handleTokenTransfer_def)
      then show ?thesis by (rule skipped)
    next
      case (Some amt)
      obtain price st1 where g: "getTokenPriceInUsd e st (tokenAddressOf e tx) = (price, st1)"
        by (cases "getTokenPriceInUsd e st (tokenAddressOf e tx)")
      define a where "a = toLowerCase (tokenAddressOf e tx)"
      have st1: "st1 = emit (PriceLookup a) st"
        using g snd_getTokenPriceInUsd [of e st "tokenAddressOf e tx"] by (simp add: a_def)
      define usd where "usd = fmul e (parseFloat e amt) (toNumber e price)"
      define created where "created = createTransaction e tx w amt usd"
      show ?thesis
      proof (cases "\<not> printable price \<or> saveTransaction e st1 created = None")
        case True
        with pre Inr Some g have "handleTokenTransfer e st tx w = st1"
          by (auto simp: handleTokenTransfer_def created_def usd_def)
        with st1 show ?thesis using refused by blast
      next
        case ok: False
        then obtain saved st2 where sv: "saveTransaction e st1 created = Some (saved, st2)"
          by auto
        have ins: "saved = created\<lparr>t_id := Some (newId (transactions st1))\<rparr> \<and>
                   st2 = emit (Inserted saved) (st1\<lparr>transactions := transactions st1 @ [saved]\<rparr>)"
          using saveTransaction_insert [of e st1 created saved st2] sv
          by (simp add: created_def createTransaction_def)
        have 1: "t_id saved \<noteq> None" using ins by simp
        have 2: "\<not> shortOpened saved" using ins by (simp add: created_def createTransaction_def)
        have 3: "amountUsd saved = usd" using ins by (simp add: created_def createTransaction_def)
        have d: "describable saved \<longleftrightarrow>
                   printable (tokenSymbolOf tx) \<and> printable (txHashOf tx) \<and>
                   printable (blockNumberOf tx)"
          using ins by (simp add: describable_def created_def createTransaction_def)
        have s2: "st2 = emit (Inserted saved)
                          ((emit (PriceLookup a) st)\<lparr>transactions := transactions st @ [saved]\<rparr>)"
          using ins st1 by simp
        show ?thesis
        proof (cases "describable saved")
          case False
          then have "handleTokenTransfer e st tx w = st2"
            using pre Inr Some g sv ok d
            by (auto simp: handleTokenTransfer_def created_def usd_def Let_def)
          with s2 show ?thesis using silent [OF 1 2 False] by simp
        next
          case True
          define m1 where
            "m1 = TransferAlert (tokenSymbolOf tx) amt (toFixed2 e usd) (txHashOf tx) (blockNumberOf tx)"
          define m2 where "m2 = ShortAlert (tokenSymbolOf tx) (toFixed2 e usd)"
          define st3 where "st3 = emit (Notified (chatId w) m1) st2"
          have res: "handleTokenTransfer e st tx w =
                  (if jsgeq usd (thresholdUsd w)
                   then emit (Notified (chatId w) m2) (openShortPosition e st3 saved w)
                   else st3)"
            using pre Inr Some g sv ok d True
            by (simp add: handleTokenTransfer_def created_def usd_def sendNotification_def
                m1_def m2_def st3_def Let_def)
          have 4: "st3 = emit (Notified (chatId w) m1)
                 (emit (Inserted saved)
                    ((emit (PriceLookup a) st)\<lparr>transactions := transactions st @ [saved]\<rparr>))"
            using s2 by (simp add: st3_def)
          show ?thesis
            using persisted [OF 1 2 True 4] res 3 by simp
        qed
      qed
    qed
  qed
qed

lemma newEvents_append: "trace st' = trace st @ evs \<Longrightarrow> newEvents st st' = evs"
  by (simp add: newEvents_def)

lemma newEvents_same [simp]: "newEvents st st = []"
  by (simp add: newEvents_def)

lemma flagsKept_refl [simp]: "flagsKept ts ts"
  by (simp add: flagsKept_def)

lemma flagsKept_trans: "flagsKept a b \<Longrightarrow> flagsKept b c \<Longrightarrow> flagsKept a c"
  by (auto simp: flagsKept_def)

lemma flagsKept_append [simp]: "flagsKept ts (ts @ new)"
  by (simp add: flagsKept_def nth_append)

lemma flagsKept_replace:
  "shortOpened t \<Longrightarrow> flagsKept ts (map (\<lambda>r. if P r then t else r) ts)"
  by (simp add: flagsKept_def)

lemma openShortPosition_effect:
  assumes "t_id t = Some i" "\<exists>r \<in> set (transactions st). t_id r = Some i"
  shows "\<exists>evs. trace (openShortPosition e st t w) = trace st @ evs \<and>
               (\<forall>ev \<in> set evs. tradeEvent ev) \<and>
               (\<not> shortOpened t \<and> printable (tokenSymbol t) \<longrightarrow>
                  MarketLookup (tokenSymbol t) \<in> set evs) \<and>
               wallets (openShortPosition e st t w) = wallets st \<and>
               length (transactions (openShortPosition e st t w)) = length (transactions st) \<and>
               flagsKept (transactions st) (transactions (openShortPosition e st t w))"
proof -
  note i = assms(1)
  consider
      (a) "shortOpened t \<or> \<not> printable (tokenSymbol t)" "openShortPosition e st t w = st"
    | (b) "openShortPosition e st t w = emit (MarketLookup (tokenSymbol t)) st"
    | (c) p a where
        "openShortPosition e st t w = emit (SellOrder p a) (emit (MarketLookup (tokenSymbol t)) st)"
    | (d) p a t' st3 where
        "saveTransaction e (emit (SellOrder p a) (emit (MarketLookup (tokenSymbol t)) st))
            (t\<lparr>shortOpened := True\<rparr>) = Some (t', st3)"
        "openShortPosition e st t w = st3"
    using openShortPosition_cases [of t e st w] by blast
  then show ?thesis
  proof cases
    case a
    then show ?thesis by auto
  next
    case b
    then show ?thesis by (simp add: tradeEvent_def)
  next
    case c
    then show ?thesis by (simp add: tradeEvent_def)
  next
    case d
    have "st3 = emit (Updated (t\<lparr>shortOpened := True\<rparr>))
                 ((emit (SellOrder p a) (emit (MarketLookup (tokenSymbol t)) st))
                    \<lparr>transactions := map (\<lambda>r. if t_id r = Some i then t\<lparr>shortOpened := True\<rparr> else r)
                        (transactions (emit (SellOrder p a) (emit (MarketLookup (tokenSymbol t)) st)))\<rparr>)"
      using saveTransaction_update [OF d(1), of i] i assms(2) by simp
    with d(2) show ?thesis
      by (simp add: tradeEvent_def flagsKept_replace)
  qed
qed

lemma handleTokenTransfer_trace:
  obtains (quiet) evs where
      "trace (handleTokenTransfer e st tx w) = trace st @ evs"
      "\<forall>ev \<in> set evs. \<exists>a. ev = PriceLookup a"
      "transactions (handleTokenTransfer e st tx w) = transactions st"
      "wallets (handleTokenTransfer e st tx w) = wallets st"
  | (silent) a saved where
      "\<not> shortOpened saved" "\<not> describable saved"
      "trace (handleTokenTransfer e st tx w) = trace st @ [PriceLookup a, Inserted saved]"
      "transactions (handleTokenTransfer e st tx w) = transactions st @ [saved]"
      "wallets (handleTokenTransfer e st tx w) = wallets st"
  | (persisted) a saved m1 m2 evs where
      "\<not> shortOpened saved" "describable saved"
      "trace (handleTokenTransfer e st tx w) =
         trace st @ [PriceLookup a, Inserted saved, Notified (chatId w) m1] @
           (if jsgeq (amountUsd saved) (thresholdUsd w) then evs @ [Notified (chatId w) m2] else [])"
      "\<forall>ev \<in> set evs. tradeEvent ev"
      "MarketLookup (tokenSymbol saved) \<in> set evs"
      "flagsKept (transactions st) (transactions (handleTokenTransfer e st tx w))"
      "length (transactions (handleTokenTransfer e st tx w)) = Suc (length (transactions st))"
      "wallets (handleTokenTransfer e st tx w) = wallets st"
proof (cases rule: handleTokenTransfer_result [of e st tx w])
  case skipped
  then show ?thesis using quiet [of "[]"] by simp
next
  case (refused a)
  then show ?thesis using quiet [of "[PriceLookup a]"] by simp
next
  case (silent a saved)
  show ?thesis
    using that(2) [of saved a] silent by simp
next
  case (persisted a saved m1 m2 st3)
  have pr: "printable (tokenSymbol saved)"
    using persisted(3) by (simp add: describable_def)
  obtain evs where evs:
    "trace (openShortPosition e st3 saved w) = trace st3 @ evs"
    "\<forall>ev \<in> set evs. tradeEvent ev"
    "MarketLookup (tokenSymbol saved) \<in> set evs"
    "wallets (openShortPosition e st3 saved w) = wallets st3"
    "length (transactions (openShortPosition e st3 saved w)) = length (transactions st3)"
    "flagsKept (transactions st3) (transactions (openShortPosition e st3 saved w))"
  proof -
    from persisted(1) obtain i where i: "t_id saved = Some i" by auto
    have "\<exists>r \<in> set (transactions st3). t_id r = Some i"
      using persisted(4) i by simp
    from openShortPosition_effect [OF i this, of e w] persisted(2) pr that
    show ?thesis by blast
  qed
  have t3: "trace st3 = trace st @ [PriceLookup a, Inserted saved, Notified (chatId w) m1]"
    and x3: "transactions st3 = transactions st @ [saved]"
    and w3: "wallets st3 = wallets st"
    using persisted(4) by simp_all
  have fk: "flagsKept (transactions st) (transactions (openShortPosition e st3 saved w))"
    using flagsKept_trans [OF _ evs(6), of "transactions st"] x3 by simp
  show ?thesis
  proof (rule that(3) [of saved a m1 evs m2])
    show "\<not> shortOpened saved" by (rule persisted(2))
    show "describable saved" by (rule persisted(3))
    show "trace (handleTokenTransfer e st tx w) =
         trace st @ [PriceLookup a, Inserted saved, Notified (chatId w) m1] @
           (if jsgeq (amountUsd saved) (thresholdUsd w) then evs @ [Notified (chatId w) m2] else [])"
      using persisted(5) t3 evs(1) by simp
    show "\<forall>ev \<in> set evs. tradeEvent ev" by (rule evs(2))
    show "MarketLookup (tokenSymbol saved) \<in> set evs" by (rule evs(3))
    show "flagsKept (transactions st) (transactions (handleTokenTransfer e st tx w))"
      using persisted(5) fk x3 by simp
    show "length (transactions (handleTokenTransfer e st tx w)) = Suc (length (transactions st))"
      using persisted(5) evs(5) x3 by simp
    show "wallets (handleTokenTransfer e st tx w) = wallets st"
      using persisted(5) evs(4) w3 by simp
  qed
qed

text \<open>
  C8. Whenever \<open>handleTokenTransfer\<close> persisted a row \<open>t\<close> for the wallet \<open>w\<close>, and
  the row can be described in the log line and the alert (its symbol, hash and block number
  convert to strings, as strings and numbers do), a market lookup was made exactly when
  \<open>amountUsd t >= thresholdUsd w\<close>, and a sell order was placed only then; below the
  threshold the trade flow is never entered.
\<close>

theorem trade_flow_iff_threshold_met:
  assumes "Inserted t \<in> set (newEvents st (handleTokenTransfer e st tx w))"
    and "describable t"
  shows "((\<exists>s. MarketLookup s \<in> set (newEvents st (handleTokenTransfer e st tx w))) \<longleftrightarrow>
            jsgeq (amountUsd t) (thresholdUsd w)) \<and>
         ((\<exists>p a. SellOrder p a \<in> set (newEvents st (handleTokenTransfer e st tx w))) \<longrightarrow>
            jsgeq (amountUsd t) (thresholdUsd w))"
proof (cases rule: handleTokenTransfer_trace [of e st tx w])
  case (quiet evs)
  then have "newEvents st (handleTokenTransfer e st tx w) = evs"
    by (simp add: newEvents_append)
  with assms(1) quiet(2) show ?thesis by auto
next
  case (silent a saved)
  have "newEvents st (handleTokenTransfer e st tx w) = [PriceLookup a, Inserted saved]"
    using silent(3) by (rule newEvents_append)
  with assms silent(2) show ?thesis by auto
next
  case (persisted a saved m1 m2 evs)
  have ne: "newEvents st (handleTokenTransfer e st tx w) =
         [PriceLookup a, Inserted saved, Notified (chatId w) m1] @
           (if jsgeq (amountUsd saved) (thresholdUsd w) then evs @ [Notified (chatId w) m2] else [])"
    using persisted(3) by (rule newEvents_append)
  have noins: "Inserted t \<notin> set evs"
    using persisted(4) by (auto simp: tradeEvent_def)
  have t: "t = saved"
    using assms(1) noins unfolding ne by (auto split: if_splits)
  show ?thesis
    unfolding ne t using persisted(5) by auto
qed

theorem trade_flow_iff_threshold_met_witness:
  "Inserted exampleRecord \<in>
     set (newEvents exampleState
            (handleTokenTransfer exampleEnv exampleState exampleTransfer exampleWallet)) \<and>
   describable exampleRecord \<and>
   \<not> jsgeq (amountUsd exampleRecord) (thresholdUsd exampleWallet) \<and>
   MarketLookup (JStr ''ABC'') \<notin>
     set (newEvents exampleState
            (handleTokenTransfer exampleEnv exampleState exampleTransfer exampleWallet)) \<and>
   Inserted exampleRecord \<in>
     set (newEvents eagerState
            (handleTokenTransfer exampleEnv eagerState exampleTransfer eagerWallet)) \<and>
   jsgeq (amountUsd exampleRecord) (thresholdUsd eagerWallet) \<and>
   MarketLookup (JStr ''ABC'') \<in>
     set (newEvents eagerState
            (handleTokenTransfer exampleEnv eagerState exampleTransfer eagerWallet))"
proof -
  have below: "Inserted exampleRecord \<in>
     set (newEvents exampleState
            (handleTokenTransfer exampleEnv exampleState exampleTransfer exampleWallet))"
    unfolding run_below_threshold newEvents_def by (simp add: exampleState_def)
  have above: "Inserted exampleRecord \<in>
     set (newEvents eagerState
            (handleTokenTransfer exampleEnv eagerState exampleTransfer eagerWallet))"
    unfolding run_above_threshold newEvents_def by (simp add: eagerState_def)
  have lt: "\<not> jsgeq (amountUsd exampleRecord) (thresholdUsd exampleWallet)"
    by (simp add: exampleRecord_def exampleWallet_def)
  have ge: "jsgeq (amountUsd exampleRecord) (thresholdUsd eagerWallet)"
    by (simp add: exampleRecord_def exampleWallet_def eagerWallet_def)
  have seen: "MarketLookup (JStr ''ABC'') \<in>
     set (newEvents eagerState
            (handleTokenTransfer exampleEnv eagerState exampleTransfer eagerWallet))"
    unfolding run_above_threshold newEvents_def by (simp add: eagerState_def)
  have d: "describable exampleRecord"
    by (simp add: describable_def exampleRecord_def)
  show ?thesis
    using below above lt ge seen d
      trade_flow_iff_threshold_met [OF below d]
      trade_flow_iff_threshold_met [OF above d]
    by blast
qed

section \<open>Valuation failure\<close>

lemma tokenAddressOf_lower: "toLowerCase (tokenAddressOf e tx) = tokenAddressOf e tx"
  by (simp add: tokenAddressOf_def toLowerCase_idem)




section \<open>The decimals of a transfer\<close>

lemma map_of_removeKey_other: "k \<noteq> k' \<Longrightarrow> map_of (removeKey k' kvs) k = map_of kvs k"
  by (induction kvs) (auto simp: removeKey_def)

lemma map_of_removeKey_same: "map_of (removeKey k kvs) k = None"
  by (induction kvs) (auto simp: removeKey_def)

lemma map_of_withoutDecimals:
  "k \<noteq> ''decimals'' \<Longrightarrow> k \<noteq> ''tokenDecimals'' \<Longrightarrow> map_of (withoutDecimals kvs) k = map_of kvs k"
  by (simp add: withoutDecimals_def map_of_removeKey_other)

lemma map_of_withoutDecimals_absent:
  "map_of (withoutDecimals kvs) ''decimals'' = None"
  "map_of (withoutDecimals kvs) ''tokenDecimals'' = None"
  by (simp_all add: withoutDecimals_def map_of_removeKey_other map_of_removeKey_same)

lemma parseInt_18: "parseInt ''18'' = Fin 18"
  by (simp add: parseInt_def isWhiteSpace_def parseIntUnsigned_def parseIntDigits_def
      digitVal_def decimalDigits_def hexLetters_def)

lemma decimalsOf_falsy:
  assumes "\<not> truthy (optGet tx ''tokenDecimals'')" "\<not> truthy (optGet tx ''decimals'')"
  shows "decimalsOf tx = JNum (Fin 18)"
  using assms by (simp add: decimalsOf_def jsor_def parseInt_18)

lemma fields_withoutDecimals:
  "txHashOf (JObj (withoutDecimals kvs)) = txHashOf (JObj kvs)"
  "valueRawOf (JObj (withoutDecimals kvs)) = valueRawOf (JObj kvs)"
  "tokenAddressRawOf (JObj (withoutDecimals kvs)) = tokenAddressRawOf (JObj kvs)"
  "tokenAddressOf e (JObj (withoutDecimals kvs)) = tokenAddressOf e (JObj kvs)"
  "tokenSymbolOf (JObj (withoutDecimals kvs)) = tokenSymbolOf (JObj kvs)"
  "blockNumberOf (JObj (withoutDecimals kvs)) = blockNumberOf (JObj kvs)"
  "createTransaction e (JObj (withoutDecimals kvs)) w amt usd =
     createTransaction e (JObj kvs) w amt usd"
  by (simp_all add: txHashOf_def valueRawOf_def tokenAddressRawOf_def tokenAddressOf_def
      tokenSymbolOf_def blockNumberOf_def createTransaction_def map_of_withoutDecimals)

lemma decimalsOf_resolved:
  "decimalsOf tx =
     (if truthy (optGet tx ''tokenDecimals'') then givenDecimals (optGet tx ''tokenDecimals'')
      else if truthy (optGet tx ''decimals'') then givenDecimals (optGet tx ''decimals'')
      else JNum (Fin 18))"
  by (simp add: decimalsOf_def givenDecimals_def jsor_def Let_def parseInt_18 split: jsval.split)

lemma handleTokenTransfer_format_fails:
  assumes "formatUnits e v (decimalsOf tx) = None" "valueBigIntOf e (valueRawOf tx) = Inr v"
  shows "handleTokenTransfer e st tx w = st"
  using assms by (simp add: handleTokenTransfer_def)

lemma handleTokenTransfer_inserts:
  assumes "\<not> nullish tx" "truthy (txHashOf tx)" "printable (tokenAddressRawOf tx)"
    and "valueBigIntOf e (valueRawOf tx) = Inr v"
    and "formatUnits e v (decimalsOf tx) = Some amt"
    and "printable (fst (getTokenPriceInUsd e st (tokenAddressOf e tx)))"
    and "saveOk e (trace st @ [PriceLookup (tokenAddressOf e tx)])
           (createTransaction e tx w amt
              (fmul e (parseFloat e amt)
                 (toNumber e (fst (getTokenPriceInUsd e st (tokenAddressOf e tx))))))"
  shows "\<exists>t. Inserted t \<in> set (newEvents st (handleTokenTransfer e st tx w)) \<and>
             amount t = amt \<and> txHash t = txHashOf tx"
proof -
  define a where "a = tokenAddressOf e tx"
  obtain price st1 where g: "getTokenPriceInUsd e st (tokenAddressOf e tx) = (price, st1)"
    by (cases "getTokenPriceInUsd e st (tokenAddressOf e tx)")
  have st1: "st1 = emit (PriceLookup a) st"
    using g snd_getTokenPriceInUsd [of e st "tokenAddressOf e tx"]
    by (simp add: a_def tokenAddressOf_lower)
  define usd where "usd = fmul e (parseFloat e amt) (toNumber e price)"
  define created where "created = createTransaction e tx w amt usd"
  define saved where "saved = created\<lparr>t_id := Some (newId (transactions st))\<rparr>"
  define st2 where "st2 = emit (Inserted saved) (st1\<lparr>transactions := transactions st1 @ [saved]\<rparr>)"
  define st3 where "st3 = sendNotification st2 (chatId w)
      (TransferAlert (tokenSymbolOf tx) amt (toFixed2 e usd) (txHashOf tx) (blockNumberOf tx))"
  have pp: "printable price" using assms(6) g by simp
  have sv: "saveTransaction e st1 created = Some (saved, st2)"
    using assms(7) g
    by (simp add: saveTransaction_def created_def usd_def st1 a_def saved_def st2_def
        createTransaction_def Let_def)
  have res: "handleTokenTransfer e st tx w =
      (if \<not> printable (tokenSymbolOf tx) \<or> \<not> printable (txHashOf tx) \<or>
          \<not> printable (blockNumberOf tx) then st2
       else if jsgeq usd (thresholdUsd w)
       then sendNotification (openShortPosition e st3 saved w) (chatId w)
              (ShortAlert (tokenSymbolOf tx) (toFixed2 e usd))
       else st3)"
    using assms(1-5) g sv pp
    by (simp add: handleTokenTransfer_def usd_def created_def st3_def Let_def)
  have id: "t_id saved = Some (newId (transactions st))" by (simp add: saved_def)
  have ex: "\<exists>r \<in> set (transactions st3). t_id r = Some (newId (transactions st))"
    using id by (simp add: st3_def st2_def st1 sendNotification_def)
  obtain evs where evs: "trace (openShortPosition e st3 saved w) = trace st3 @ evs"
    using openShortPosition_effect [OF id ex, of e w] by blast
  have t2: "trace st2 = trace st @ [PriceLookup a, Inserted saved]"
    by (simp add: st2_def st1)
  have t3: "trace st3 = trace st2 @ [Notified (chatId w)
      (TransferAlert (tokenSymbolOf tx) amt (toFixed2 e usd) (txHashOf tx) (blockNumberOf tx))]"
    by (simp add: st3_def sendNotification_def)
  have "\<exists>more. trace (handleTokenTransfer e st tx w) =
          trace st @ PriceLookup a # Inserted saved # more"
    using res evs t2 t3 by (simp add: sendNotification_def)
  then have "Inserted saved \<in> set (newEvents st (handleTokenTransfer e st tx w))"
    by (auto simp: newEvents_def)
  moreover have "amount saved = amt \<and> txHash saved = txHashOf tx"
    by (simp add: saved_def created_def createTransaction_def)
  ultimately show ?thesis by blast
qed

text \<open>
  C10. Let \<open>d\<close> be 18 when \<^verbatim>\<open>tokenDecimals\<close> and \<^verbatim>\<open>decimals\<close> are both falsy (absent,
  \<open>0\<close>, the empty string, \<^verbatim>\<open>null\<close>, \<^verbatim>\<open>false\<close>), and otherwise the first truthy one of
  the two as given (a string through \<^verbatim>\<open>parseInt\<close>, so \<^verbatim>\<open>"0"\<close> is 0; anything else
  unchanged). For a transfer that reaches the formatting step, \<open>handleTokenTransfer\<close>
  formats with \<open>d\<close>: when \<^verbatim>\<open>formatUnits\<close> throws on \<open>d\<close> nothing is done, and when it
  returns an amount, that amount is the one stored in the inserted row (the price
  converting and the database accepting the row). With both properties falsy, \<open>d\<close> is
  18 and the run is the run on the object without them.
\<close>

theorem decimals_passed_to_formatUnits:
  assumes "truthy (txHashOf (JObj kvs))" "printable (tokenAddressRawOf (JObj kvs))"
    and "valueBigIntOf e (valueRawOf (JObj kvs)) = Inr v"
    and "d = (if truthy (optGet (JObj kvs) ''tokenDecimals'')
              then givenDecimals (optGet (JObj kvs) ''tokenDecimals'')
              else if truthy (optGet (JObj kvs) ''decimals'')
              then givenDecimals (optGet (JObj kvs) ''decimals'')
              else JNum (Fin 18))"
  shows "(formatUnits e v d = None \<longrightarrow> handleTokenTransfer e st (JObj kvs) w = st) \<and>
         (\<forall>amt. formatUnits e v d = Some amt \<and>
                printable (fst (getTokenPriceInUsd e st (tokenAddressOf e (JObj kvs)))) \<and>
                saveOk e (trace st @ [PriceLookup (tokenAddressOf e (JObj kvs))])
                  (createTransaction e (JObj kvs) w amt
                     (fmul e (parseFloat e amt)
                        (toNumber e (fst (getTokenPriceInUsd e st (tokenAddressOf e (JObj kvs)))))))
              \<longrightarrow> (\<exists>t. Inserted t \<in> set (newEvents st (handleTokenTransfer e st (JObj kvs) w)) \<and>
                        amount t = amt \<and> txHash t = txHashOf (JObj kvs))) \<and>
         (\<not> truthy (optGet (JObj kvs) ''tokenDecimals'') \<and>
          \<not> truthy (optGet (JObj kvs) ''decimals'') \<longrightarrow>
            d = JNum (Fin 18) \<and>
            handleTokenTransfer e st (JObj kvs) w =
              handleTokenTransfer e st (JObj (withoutDecimals kvs)) w)"
proof -
  have dd: "decimalsOf (JObj kvs) = d"
    unfolding assms(4) by (rule decimalsOf_resolved)
  have nn: "\<not> nullish (JObj kvs)" by simp
  have 1: "formatUnits e v d = None \<longrightarrow> handleTokenTransfer e st (JObj kvs) w = st"
    using handleTokenTransfer_format_fails [of e v "JObj kvs" st w] assms(3) dd by simp
  have 2: "\<forall>amt. formatUnits e v d = Some amt \<and>
                printable (fst (getTokenPriceInUsd e st (tokenAddressOf e (JObj kvs)))) \<and>
                saveOk e (trace st @ [PriceLookup (tokenAddressOf e (JObj kvs))])
                  (createTransaction e (JObj kvs) w amt
                     (fmul e (parseFloat e amt)
                        (toNumber e (fst (getTokenPriceInUsd e st (tokenAddressOf e (JObj kvs)))))))
              \<longrightarrow> (\<exists>t. Inserted t \<in> set (newEvents st (handleTokenTransfer e st (JObj kvs) w)) \<and>
                        amount t = amt \<and> txHash t = txHashOf (JObj kvs))"
    using handleTokenTransfer_inserts [OF nn assms(1,2,3), of _ st w] dd by blast
  have 3: "\<not> truthy (optGet (JObj kvs) ''tokenDecimals'') \<and>
          \<not> truthy (optGet (JObj kvs) ''decimals'') \<longrightarrow>
            d = JNum (Fin 18) \<and>
            handleTokenTransfer e st (JObj kvs) w =
              handleTokenTransfer e st (JObj (withoutDecimals kvs)) w"
  proof (intro impI conjI)
    assume f: "\<not> truthy (optGet (JObj kvs) ''tokenDecimals'') \<and>
          \<not> truthy (optGet (JObj kvs) ''decimals'')"
    then show "d = JNum (Fin 18)" using assms(4) by simp
    have a: "decimalsOf (JObj kvs) = JNum (Fin 18)"
      using f by (simp add: decimalsOf_falsy)
    have b: "decimalsOf (JObj (withoutDecimals kvs)) = JNum (Fin 18)"
      by (rule decimalsOf_falsy) (simp_all add: map_of_withoutDecimals_absent)
    show "handleTokenTransfer e st (JObj kvs) w =
            handleTokenTransfer e st (JObj (withoutDecimals kvs)) w"
      unfolding handleTokenTransfer_def
      by (simp only: fields_withoutDecimals a b nullish.simps)
  qed
  from 1 2 3 show ?thesis by blast
qed

theorem decimals_passed_to_formatUnits_witness:
  "optGet (JObj zeroDecimalsFields) ''decimals'' = JNum (Fin 0) \<and>
   formatUnits decimalsEnv 5000000000000000000 (JNum (Fin 18)) = Some ''5.0'' \<and>
   (\<exists>t. Inserted t \<in>
          set (newEvents exampleState
                 (handleTokenTransfer decimalsEnv exampleState (JObj zeroDecimalsFields)
                    exampleWallet)) \<and>
        amount t = ''5.0'' \<and> txHash t = txHashOf (JObj zeroDecimalsFields)) \<and>
   handleTokenTransfer decimalsEnv exampleState (JObj zeroDecimalsFields) exampleWallet =
     handleTokenTransfer decimalsEnv exampleState (JObj (withoutDecimals zeroDecimalsFields))
       exampleWallet \<and>
   optGet (JObj stringZeroFields) ''decimals'' = JStr ''0'' \<and>
   formatUnits decimalsEnv 5000000000000000000 (JNum (Fin 0)) = Some ''5000000000000000000'' \<and>
   (\<exists>t. Inserted t \<in>
          set (newEvents exampleState
                 (handleTokenTransfer decimalsEnv exampleState (JObj stringZeroFields)
                    exampleWallet)) \<and>
        amount t = ''5000000000000000000'' \<and> txHash t = txHashOf (JObj stringZeroFields))"
proof -
  have h1: "truthy (txHashOf (JObj zeroDecimalsFields))"
    and h2: "printable (tokenAddressRawOf (JObj zeroDecimalsFields))"
    and h3: "valueBigIntOf decimalsEnv (valueRawOf (JObj zeroDecimalsFields)) =
               Inr 5000000000000000000"
    and h4: "JNum (Fin 18) =
              (if truthy (optGet (JObj zeroDecimalsFields) ''tokenDecimals'')
               then givenDecimals (optGet (JObj zeroDecimalsFields) ''tokenDecimals'')
               else if truthy (optGet (JObj zeroDecimalsFields) ''decimals'')
               then givenDecimals (optGet (JObj zeroDecimalsFields) ''decimals'')
               else JNum (Fin 18))"
    and z: "optGet (JObj zeroDecimalsFields) ''decimals'' = JNum (Fin 0)"
    and f: "\<not> truthy (optGet (JObj zeroDecimalsFields) ''tokenDecimals'') \<and>
            \<not> truthy (optGet (JObj zeroDecimalsFields) ''decimals'')"
    by (simp_all add: zeroDecimalsFields_def string_defs service_defs)
  have g1: "truthy (txHashOf (JObj stringZeroFields))"
    and g2: "printable (tokenAddressRawOf (JObj stringZeroFields))"
    and g3: "valueBigIntOf decimalsEnv (valueRawOf (JObj stringZeroFields)) =
               Inr 5000000000000000000"
    and g4: "JNum (Fin 0) =
              (if truthy (optGet (JObj stringZeroFields) ''tokenDecimals'')
               then givenDecimals (optGet (JObj stringZeroFields) ''tokenDecimals'')
               else if truthy (optGet (JObj stringZeroFields) ''decimals'')
               then givenDecimals (optGet (JObj stringZeroFields) ''decimals'')
               else JNum (Fin 18))"
    and s: "optGet (JObj stringZeroFields) ''decimals'' = JStr ''0''"
    by (simp_all add: stringZeroFields_def givenDecimals_def string_defs service_defs)
  have u18: "formatUnits decimalsEnv 5000000000000000000 (JNum (Fin 18)) = Some ''5.0''"
    and u0: "formatUnits decimalsEnv 5000000000000000000 (JNum (Fin 0)) =
               Some ''5000000000000000000''"
    by (simp_all add: decimalsEnv_def)
  have ok: "\<And>tr t. saveOk decimalsEnv tr t"
    by (simp add: decimalsEnv_def exampleEnv_def)
  have p1: "printable (fst (getTokenPriceInUsd decimalsEnv exampleState
                              (tokenAddressOf decimalsEnv (JObj zeroDecimalsFields))))"
    by (simp add: zeroDecimalsFields_def decimalsEnv_def example_defs string_defs service_defs)
  have p2: "printable (fst (getTokenPriceInUsd decimalsEnv exampleState
                              (tokenAddressOf decimalsEnv (JObj stringZeroFields))))"
    by (simp add: stringZeroFields_def decimalsEnv_def example_defs string_defs service_defs)
  note a = decimals_passed_to_formatUnits [OF h1 h2 h3 h4, of exampleState exampleWallet]
  note b = decimals_passed_to_formatUnits [OF g1 g2 g3 g4, of exampleState exampleWallet]
  from a u18 p1 ok have a2:
    "\<exists>t. Inserted t \<in>
          set (newEvents exampleState
                 (handleTokenTransfer decimalsEnv exampleState (JObj zeroDecimalsFields)
                    exampleWallet)) \<and>
        amount t = ''5.0'' \<and> txHash t = txHashOf (JObj zeroDecimalsFields)"
    by blast
  from a f have a3:
    "handleTokenTransfer decimalsEnv exampleState (JObj zeroDecimalsFields) exampleWallet =
     handleTokenTransfer decimalsEnv exampleState (JObj (withoutDecimals zeroDecimalsFields))
       exampleWallet"
    by blast
  from b u0 p2 ok have b2:
    "\<exists>t. Inserted t \<in>
          set (newEvents exampleState
                 (handleTokenTransfer decimalsEnv exampleState (JObj stringZeroFields)
                    exampleWallet)) \<and>
        amount t = ''5000000000000000000'' \<and> txHash t = txHashOf (JObj stringZeroFields)"
    by blast
  from z u18 a2 a3 s u0 b2 show ?thesis by blast
qed

section \<open>The second notification\<close>

text \<open>
  C3. The claim is that a transfer at or above the threshold for which no market exists
  produces exactly one notification. On the example transfer (10 USD, threshold 5 USD) with
  an exchange that lists no market, the row stays at \<open>shortOpened = False\<close> and no order
  is placed, yet two notifications are sent: the transfer alert and, after the market
  lookup, the short-position message.
\<close>

theorem second_notification_without_market:
  "processERC20Transfer noMarketEnv eagerState exampleTransfer =
     \<lparr>wallets = [eagerWallet], transactions = [exampleRecord],
      trace = [PriceLookup ''0xc0'', Inserted exampleRecord,
               Notified 42 (TransferAlert (JStr ''ABC'') ''5.0'' ''10.00'' (JStr ''0xaa'')
                              (JNum (Fin 0))),
               MarketLookup (JStr ''ABC''),
               Notified 42 (ShortAlert (JStr ''ABC'') ''10.00'')]\<rparr> \<and>
   \<not> shortOpened exampleRecord \<and>
   jsgeq (amountUsd exampleRecord) (thresholdUsd eagerWallet) \<and>
   fst (findTradingPair noMarketEnv eagerState (JStr ''ABC'')) = JNull"
  by (simp add: example_defs string_defs service_defs)

section \<open>The trade flag\<close>

lemma tradeEvent_flagWrite: "tradeEvent ev \<Longrightarrow> flagWrite ev"
  by (cases ev) (simp_all add: tradeEvent_def flagWrite_def)

lemma goodStep_refl [simp]: "goodStep st st"
  by (simp add: goodStep_def)

lemma goodStep_trans: "goodStep a b \<Longrightarrow> goodStep b c \<Longrightarrow> goodStep a c"
  unfolding goodStep_def
  by (elim conjE exE) (auto intro: flagsKept_trans)

lemma goodStep_handleTokenTransfer: "goodStep st (handleTokenTransfer e st tx w)"
proof (cases rule: handleTokenTransfer_trace [of e st tx w])
  case (quiet evs)
  then show ?thesis
    by (auto simp: goodStep_def flagWrite_def)
next
  case (silent a saved)
  then show ?thesis
    by (simp add: goodStep_def flagWrite_def)
next
  case (persisted a saved m1 m2 evs)
  have "\<forall>ev \<in> set evs. flagWrite ev"
    using persisted(4) tradeEvent_flagWrite by blast
  then have "\<forall>ev \<in> set ([PriceLookup a, Inserted saved, Notified (chatId w) m1] @
           (if jsgeq (amountUsd saved) (thresholdUsd w) then evs @ [Notified (chatId w) m2] else [])).
          flagWrite ev"
    using persisted(1) by (auto simp: flagWrite_def)
  with persisted(3,6,8) show ?thesis
    unfolding goodStep_def by blast
qed

lemma processERC20Transfer_cases:
  "processERC20Transfer e st ev = st \<or>
   (\<exists>w. processERC20Transfer e st ev = handleTokenTransfer e st ev w)"
  by (simp add: processERC20Transfer_def Let_def split: sum.split jsval.split option.split)
    blast

lemma processTransferLog_cases:
  "processTransferLog e st ev = st \<or>
   (\<exists>tx w. processTransferLog e st ev = handleTokenTransfer e st tx w)"
  by (simp add: processTransferLog_def Let_def split: sum.split jsval.split option.split)
    blast

lemma goodStep_processERC20Transfer: "goodStep st (processERC20Transfer e st ev)"
  using processERC20Transfer_cases [of e st ev] goodStep_handleTokenTransfer by auto

lemma goodStep_processTransferLog: "goodStep st (processTransferLog e st ev)"
  using processTransferLog_cases [of e st ev] goodStep_handleTokenTransfer by auto

lemma goodStep_processTransfers: "goodStep st (snd (processTransfers e b st ts))"
proof (induction ts arbitrary: st)
  case Nil
  show ?case by simp
next
  case (Cons t ts)
  show ?case
    using Cons.IH goodStep_processERC20Transfer goodStep_trans
    by (auto split: sum.split) blast+
qed

lemma goodStep_processLogs: "goodStep st (snd (processLogs e st ls))"
proof (induction ls arbitrary: st)
  case Nil
  show ?case by simp
next
  case (Cons l ls)
  show ?case
    using Cons.IH goodStep_processTransferLog goodStep_trans
    by (auto split: sum.split) blast+
qed

lemma goodStep_handleWebhookEvent: "goodStep st (snd (handleWebhookEvent e st body))"
proof -
  have "\<And>b ts ls. goodStep st (snd (processLogs e (snd (processTransfers e b st ts)) ls))"
    using goodStep_processTransfers goodStep_processLogs goodStep_trans by blast
  moreover have "\<And>b ts. goodStep st (snd (processTransfers e b st ts))"
    by (rule goodStep_processTransfers)
  ultimately show ?thesis
    by (auto simp: handleWebhookEvent_def Let_def split: sum.split prod.split option.split)
      (metis snd_conv)+
qed

lemma goodStep_handleMoralisWebhook: "goodStep st (snd (handleMoralisWebhook e st body))"
  using goodStep_handleWebhookEvent [of st e body]
  by (simp add: handleMoralisWebhook_def Let_def split: sum.split)

lemma goodStep_newEvents:
  assumes "goodStep st st'"
  shows "(\<forall>ev \<in> set (newEvents st st'). flagWrite ev) \<and> flagsKept (transactions st) (transactions st')"
  using assms unfolding goodStep_def by (auto simp: newEvents_def)


text \<open>
  C9. In every run of \<open>handleWebhookEvent\<close>, and of the controller around it, each row
  written to the transaction table is either inserted with \<open>shortOpened = False\<close> or
  updated to \<open>shortOpened = True\<close>; no row disappears and a row whose flag was set before
  the run has it set after the run. (The Telegram commands only read the table.)
\<close>

theorem short_flag_only_rises:
  "(\<forall>ev \<in> set (newEvents st (snd (handleWebhookEvent e st body))). flagWrite ev) \<and>
   flagsKept (transactions st) (transactions (snd (handleWebhookEvent e st body))) \<and>
   (\<forall>ev \<in> set (newEvents st (snd (handleMoralisWebhook e st body))). flagWrite ev) \<and>
   flagsKept (transactions st) (transactions (snd (handleMoralisWebhook e st body)))"
  using goodStep_newEvents [OF goodStep_handleWebhookEvent, of st e body]
    goodStep_newEvents [OF goodStep_handleMoralisWebhook, of st e body]
  by blast

theorem short_flag_only_rises_witness:
  "Inserted (exampleRecord\<lparr>t_id := Some 2\<rparr>) \<in>
     set (newEvents openedState (snd (handleWebhookEvent exampleEnv openedState confirmedBody))) \<and>
   \<not> shortOpened (exampleRecord\<lparr>t_id := Some 2\<rparr>) \<and>
   Updated (exampleRecord\<lparr>t_id := Some 2, shortOpened := True\<rparr>) \<in>
     set (newEvents openedState (snd (handleWebhookEvent exampleEnv openedState confirmedBody))) \<and>
   0 < length (transactions openedState) \<and>
   shortOpened (transactions openedState ! 0) \<and>
   shortOpened (transactions (snd (handleWebhookEvent exampleEnv openedState confirmedBody)) ! 0)"
proof -
  have i: "Inserted (exampleRecord\<lparr>t_id := Some 2\<rparr>) \<in>
     set (newEvents openedState (snd (handleWebhookEvent exampleEnv openedState confirmedBody)))"
    unfolding run_beside_opened_row newEvents_def by (simp add: openedState_def)
  have u: "Updated (exampleRecord\<lparr>t_id := Some 2, shortOpened := True\<rparr>) \<in>
     set (newEvents openedState (snd (handleWebhookEvent exampleEnv openedState confirmedBody)))"
    unfolding run_beside_opened_row newEvents_def by (simp add: openedState_def)
  have o: "0 < length (transactions openedState) \<and> shortOpened (transactions openedState ! 0)"
    by (simp add: openedState_def openedRecord_def)
  from short_flag_only_rises [of openedState exampleEnv confirmedBody]
  have w: "\<forall>ev \<in> set (newEvents openedState
                         (snd (handleWebhookEvent exampleEnv openedState confirmedBody))).
             flagWrite ev"
    and k: "flagsKept (transactions openedState)
              (transactions (snd (handleWebhookEvent exampleEnv openedState confirmedBody)))"
    by blast+
  from w i have "flagWrite (Inserted (exampleRecord\<lparr>t_id := Some 2\<rparr>))"
    by blast
  then have f: "\<not> shortOpened (exampleRecord\<lparr>t_id := Some 2\<rparr>)"
    by (simp add: flagWrite_def)
  from k o have
    "shortOpened (transactions (snd (handleWebhookEvent exampleEnv openedState confirmedBody)) ! 0)"
    unfolding flagsKept_def by blast
  with i u o f show ?thesis by blast
qed

end
